theory Spec2Isabelle
  imports Complex_Main "HOL-Library.AList"
begin

unbundle bit_operations_syntax

section \<open>Python numerics\<close>

text \<open>
  Prices, volumes and distances are Python floats in \<^verbatim>\<open>mt5_connector.py\<close>. They are
  modelled as exact real numbers: the arithmetic of the source is kept operation by
  operation, the binary rounding error of each float operation is not.

  \<^verbatim>\<open>round(x)\<close> of Python 3 rounds to the nearest integer and a tie to the even
  neighbour; \<^verbatim>\<open>round(x, n)\<close> does the same at the n-th decimal.
\<close>

definition py_round :: "real \<Rightarrow> int" where
  "py_round x =
     (let f = \<lfloor>x\<rfloor>; d = x - of_int f
      in if d < 1 / 2 then f
         else if 1 / 2 < d then f + 1
         else if even f then f else f + 1)"

definition py_round_nd :: "real \<Rightarrow> int \<Rightarrow> real" where
  "py_round_nd x n =
     (if 0 \<le> n then of_int (py_round (x * 10 ^ nat n)) / 10 ^ nat n
      else of_int (py_round (x / 10 ^ nat (- n))) * 10 ^ nat (- n))"

text \<open>\<^verbatim>\<open>str.upper()\<close> on the ASCII letters.\<close>

definition upper_char :: "char \<Rightarrow> char" where
  "upper_char c =
     (case map_of (zip ''abcdefghijklmnopqrstuvwxyz'' ''ABCDEFGHIJKLMNOPQRSTUVWXYZ'') c of
        Some u \<Rightarrow> u
      | None \<Rightarrow> c)"

definition upper :: "string \<Rightarrow> string" where
  "upper s = map upper_char s"

section \<open>The venue interface (MetaTrader5 module)\<close>

type_synonym symbol = string
type_synonym client_id = string

datatype order_side = ORDER_TYPE_BUY | ORDER_TYPE_SELL

datatype position_type = POSITION_TYPE_BUY | POSITION_TYPE_SELL

datatype filling = ORDER_FILLING_FOK | ORDER_FILLING_IOC | ORDER_FILLING_RETURN

definition TRADE_RETCODE_DONE :: int where
  "TRADE_RETCODE_DONE = 10009"

text \<open>
  \<^verbatim>\<open>mt5.symbol_info(symbol)\<close>. The source reads \<^verbatim>\<open>stops_level\<close> with
  \<^verbatim>\<open>getattr(info, 'stops_level', 0)\<close>, so the attribute may be absent (\<open>None\<close>).
\<close>

record SymbolInfo =
  point :: real
  digits :: int
  trade_mode :: int
  volume_min :: real
  volume_max :: real
  volume_step :: real
  stops_level :: "int option"
  filling_mode :: int

record Tick =
  bid :: real
  ask :: real
  tick_time :: int

text \<open>One bar of \<^verbatim>\<open>mt5.copy_rates_from_pos\<close>.\<close>

record Rate =
  rate_time :: int
  rate_high :: real
  rate_low :: real
  rate_close :: real

record TradePosition =
  pos_symbol :: symbol
  pos_type :: position_type
  pos_volume :: real
  pos_magic :: int
  pos_profit :: real

record OrderSendResult =
  res_retcode :: int
  res_order :: int
  res_deal :: int
  res_volume :: real
  res_price :: real

text \<open>
  The comment of a request is the caller's text in \<^verbatim>\<open>place_trade\<close> and
  \<^verbatim>\<open>f"Close {ticket}"\<close> in \<^verbatim>\<open>close_trade\<close>.
\<close>

datatype order_comment = Comment string | CloseComment int

text \<open>
  The request dictionary handed to \<^verbatim>\<open>mt5.order_send\<close>. The keys
  \<^verbatim>\<open>sl\<close>, \<^verbatim>\<open>tp\<close> and \<^verbatim>\<open>position\<close> are optional in the source; the constant keys
  \<^verbatim>\<open>action\<close> and \<^verbatim>\<open>type_time\<close> are left out.
\<close>

record request =
  req_symbol :: symbol
  req_volume :: real
  req_type :: order_side
  req_position :: "int option"
  req_price :: real
  req_deviation :: int
  req_magic :: int
  req_comment :: order_comment
  req_type_filling :: filling
  req_sl :: "real option"
  req_tp :: "real option"

text \<open>
  \<^verbatim>\<open>mt5.last_error()\<close>: a (code, description) tuple, or some other object whose
  \<^verbatim>\<open>code\<close> and \<^verbatim>\<open>comment\<close> attributes are read with defaults.
\<close>

datatype mt5_error = ErrTuple int string | ErrObject "int option" "string option"

fun error_code_of :: "mt5_error \<Rightarrow> int" where
  "error_code_of (ErrTuple c m) = c"
| "error_code_of (ErrObject c m) = (case c of None \<Rightarrow> - 1 | Some k \<Rightarrow> k)"

fun error_comment_of :: "mt5_error \<Rightarrow> string" where
  "error_comment_of (ErrTuple c m) = m"
| "error_comment_of (ErrObject c m) = (case m of None \<Rightarrow> ''Unknown error'' | Some t \<Rightarrow> t)"

text \<open>
  What the venue answers. The calls that are repeated inside one operation carry the
  index of the call: \<open>symbol_info_tick v i\<close> is the i-th tick fetch of the operation,
  \<open>order_send v i\<close> its i-th submission and \<open>last_error v i\<close> the error left by that
  submission.
\<close>

record venue =
  symbol_select :: "symbol \<Rightarrow> bool"
  symbol_info :: "symbol \<Rightarrow> SymbolInfo option"
  symbol_info_tick :: "nat \<Rightarrow> symbol \<Rightarrow> Tick option"
  copy_rates_from_pos :: "symbol \<Rightarrow> Rate list option"
  positions_get :: "int \<Rightarrow> TradePosition list"
  order_send :: "nat \<Rightarrow> request \<Rightarrow> OrderSendResult option"
  last_error :: "nat \<Rightarrow> mt5_error"

section \<open>Errors and results\<close>

text \<open>
  The \<^verbatim>\<open>error_codes\<close> dictionary of \<^verbatim>\<open>place_trade\<close> and \<^verbatim>\<open>close_trade\<close>,
  and the message \<^verbatim>\<open>error_codes.get(retcode, f"Error {retcode}")\<close>.
\<close>

definition error_codes :: "int \<Rightarrow> string option" where
  "error_codes c =
     (if c = 10018 then Some ''Market closed''
      else if c = 10019 then Some ''Insufficient funds''
      else if c = 10020 then Some ''Prices changed''
      else if c = 10021 then Some ''Invalid request (check volume, symbol, or market status)''
      else if c = 10022 then Some ''Invalid SL/TP''
      else if c = 10017 then Some ''Invalid parameters''
      else if c = 10027 then Some ''AutoTrading disabled''
      else if c = 10030 then Some ''Invalid order filling type''
      else None)"

datatype error_msg = Catalogued string | ErrorNumber int

definition error_msg_of :: "int \<Rightarrow> error_msg" where
  "error_msg_of retcode =
     (case error_codes retcode of Some m \<Rightarrow> Catalogued m | None \<Rightarrow> ErrorNumber retcode)"

text \<open>Every \<^verbatim>\<open>return False, ...\<close> of the connector, one constructor per message.\<close>

datatype error =
    NotConnected
  | SymbolNotSelected symbol
  | SymbolNotFound symbol
  | SymbolNotTradable symbol
  | NoPrice symbol
  | NoPriceData symbol
  | InvalidOrderType string
  | NoSupportedFilling symbol
  | OrderFailedCode int string
  | OrderFailed error_msg
  | PositionNotFound int
  | VolumeBelowMinimum real real
  | VolumeExceedsMaximum real real
  | CloseFailedCode int string
  | CloseFailed error_msg
  | CloseFailedAfter int
  | ZeroDivisionError

record trade_data =
  td_order :: int
  td_deal :: int
  td_volume :: real
  td_price :: real
  td_sl :: real
  td_tp :: real
  td_comment :: string
  td_retcode :: int

record close_data =
  cd_deal :: int
  cd_retcode :: int
  cd_price :: real
  cd_volume :: real
  cd_profit :: real
  cd_symbol :: symbol
  cd_position_type :: position_type

section \<open>Order placement: \<^verbatim>\<open>MT5Connector.place_trade\<close>\<close>

text \<open>
  \<^verbatim>\<open>max(info.volume_min, min(info.volume_max, round(volume / info.volume_step) * info.volume_step))\<close>,
  the expression of lines 292 and 399. The caller checks that the step is not zero
  (the division raises otherwise).
\<close>

definition normalized_volume :: "SymbolInfo \<Rightarrow> real \<Rightarrow> real" where
  "normalized_volume info volume =
     max (volume_min info)
       (min (volume_max info) (of_int (py_round (volume / volume_step info)) * volume_step info))"

text \<open>Lines 295-302 (and 404-411): the list of filling modes the bitmask allows.\<close>

definition supported_fillings :: "int \<Rightarrow> filling list" where
  "supported_fillings fm =
     (if fm AND 1 \<noteq> 0 then [ORDER_FILLING_FOK] else []) @
     (if fm AND 2 \<noteq> 0 then [ORDER_FILLING_IOC] else []) @
     (if fm AND 4 \<noteq> 0 then [ORDER_FILLING_RETURN] else [])"

text \<open>\<^verbatim>\<open>getattr(info, 'stops_level', 0) * info.point\<close>, line 275.\<close>

definition stop_level_of :: "SymbolInfo \<Rightarrow> real" where
  "stop_level_of info =
     of_int (case stops_level info of None \<Rightarrow> 0 | Some l \<Rightarrow> l) * point info"

text \<open>
  Lines 283-284 and 288-289: the stop price computed from the caller's raw distance.
  \<open>away\<close> is true for the level above the price (take-profit of a BUY, stop-loss of a
  SELL). An absent, zero or negative distance gives 0.
\<close>

definition raw_stop :: "bool \<Rightarrow> real \<Rightarrow> real option \<Rightarrow> int \<Rightarrow> real" where
  "raw_stop away price distance dg =
     (case distance of
        None \<Rightarrow> 0
      | Some d \<Rightarrow>
          if d \<noteq> 0 \<and> 0 < d
          then py_round_nd (if away then price + d else price - d) dg
          else 0)"

text \<open>
  Lines 324-328 and 329-333: the level written into the request. The result is the
  final value of \<^verbatim>\<open>sl\<close> (or \<^verbatim>\<open>tp\<close>) and the value of the request key, \<open>None\<close> when
  the key is not set.
\<close>

definition floored_stop ::
  "bool \<Rightarrow> real \<Rightarrow> real option \<Rightarrow> int \<Rightarrow> real \<Rightarrow> real \<Rightarrow> real \<times> real option" where
  "floored_stop away price distance dg stop_level raw =
     (case distance of
        None \<Rightarrow> (raw, None)
      | Some d \<Rightarrow>
          if d \<noteq> 0 \<and> 0 < d \<and> raw \<noteq> 0
          then (if d < stop_level
                then (let lvl = py_round_nd (if away then price + stop_level
                                             else price - stop_level) dg
                      in (lvl, Some lvl))
                else (raw, Some raw))
          else (raw, None))"

text \<open>
  Lines 334-371: submission, the single retry on error code 10013, and the translation
  of the result. The second component is the list of requests handed to
  \<^verbatim>\<open>mt5.order_send\<close>, in order.
\<close>

definition check_result ::
  "OrderSendResult \<Rightarrow> real \<Rightarrow> real \<Rightarrow> string \<Rightarrow> error + trade_data" where
  "check_result result sl tp comment =
     (if res_retcode result = TRADE_RETCODE_DONE
      then Inr \<lparr>td_order = res_order result, td_deal = res_deal result,
                td_volume = res_volume result, td_price = res_price result,
                td_sl = sl, td_tp = tp, td_comment = comment,
                td_retcode = res_retcode result\<rparr>
      else Inl (OrderFailed (error_msg_of (res_retcode result))))"

definition send_order ::
  "venue \<Rightarrow> request \<Rightarrow> real \<Rightarrow> real \<Rightarrow> string \<Rightarrow> (error + trade_data) \<times> request list" where
  "send_order v req sl tp comment =
     (case order_send v 0 req of
        Some result \<Rightarrow> (check_result result sl tp comment, [req])
      | None \<Rightarrow>
          (let err = last_error v 0
           in if error_code_of err = 10013
              then (let req2 = req\<lparr>req_deviation := 50\<rparr>
                    in case order_send v 1 req2 of
                         None \<Rightarrow>
                           (let err2 = last_error v 1
                            in (Inl (OrderFailedCode (error_code_of err2) (error_comment_of err2)),
                                [req, req2]))
                       | Some result \<Rightarrow> (check_result result sl tp comment, [req, req2]))
              else (Inl (OrderFailedCode (error_code_of err) (error_comment_of err)), [req])))"

definition side_of :: "string \<Rightarrow> order_side option" where
  "side_of t = (if t = ''BUY'' then Some ORDER_TYPE_BUY
                else if t = ''SELL'' then Some ORDER_TYPE_SELL else None)"

definition place_request ::
  "SymbolInfo \<Rightarrow> Tick \<Rightarrow> symbol \<Rightarrow> real \<Rightarrow> order_side \<Rightarrow> real option \<Rightarrow> real option \<Rightarrow>
   string \<Rightarrow> int \<Rightarrow> filling \<Rightarrow> request \<times> real \<times> real" where
  "place_request info tick symbol volume mt5_type sl_distance tp_distance comment magic
     filling_type =
     (let buy = (mt5_type = ORDER_TYPE_BUY);
          price = (if buy then ask tick else bid tick);
          sl0 = raw_stop (\<not> buy) price sl_distance (digits info);
          tp0 = raw_stop buy price tp_distance (digits info);
          (sl, rsl) = floored_stop (\<not> buy) price sl_distance (digits info)
                        (stop_level_of info) sl0;
          (tp, rtp) = floored_stop buy price tp_distance (digits info)
                        (stop_level_of info) tp0
      in (\<lparr>req_symbol = symbol, req_volume = normalized_volume info volume,
           req_type = mt5_type, req_position = None, req_price = price,
           req_deviation = 20, req_magic = magic, req_comment = Comment comment,
           req_type_filling = filling_type, req_sl = rsl, req_tp = rtp\<rparr>, sl, tp))"

definition place_trade ::
  "bool \<Rightarrow> venue \<Rightarrow> symbol \<Rightarrow> real \<Rightarrow> string \<Rightarrow> real option \<Rightarrow> real option \<Rightarrow> string \<Rightarrow> int \<Rightarrow>
   (error + trade_data) \<times> request list" where
  "place_trade conn v symbol volume order_type sl_distance tp_distance comment magic =
     (if \<not> conn then (Inl NotConnected, [])
      else if \<not> symbol_select v symbol then (Inl (SymbolNotSelected symbol), [])
      else case symbol_info v symbol of
        None \<Rightarrow> (Inl (SymbolNotFound symbol), [])
      | Some info \<Rightarrow>
          if trade_mode info = 0 then (Inl (SymbolNotTradable symbol), [])
          else case symbol_info_tick v 0 symbol of
            None \<Rightarrow> (Inl (NoPrice symbol), [])
          | Some tick \<Rightarrow>
              (case side_of (upper order_type) of
                 None \<Rightarrow> (Inl (InvalidOrderType (upper order_type)), [])
               | Some mt5_type \<Rightarrow>
                   if volume_step info = 0 then (Inl ZeroDivisionError, [])
                   else case supported_fillings (filling_mode info) of
                     [] \<Rightarrow> (Inl (NoSupportedFilling symbol), [])
                   | filling_type # rest \<Rightarrow>
                       (let (req, sl, tp) =
                              place_request info tick symbol volume mt5_type sl_distance
                                tp_distance comment magic filling_type
                        in send_order v req sl tp comment)))"

section \<open>Closing a position: \<^verbatim>\<open>MT5Connector.close_trade\<close>\<close>

text \<open>
  Lines 416-465, the loop \<^verbatim>\<open>for attempt in range(max_retries)\<close> as a recursion over
  the list of attempt numbers. \<open>fills\<close> is \<^verbatim>\<open>supported_fillings\<close>, \<open>filling_type\<close>
  the mode of the current attempt. The empty list is the end of the loop, line 465.
  The pause \<^verbatim>\<open>time.sleep(0.5)\<close> before a retry has no effect on the state.
\<close>

definition close_request ::
  "TradePosition \<Rightarrow> int \<Rightarrow> symbol \<Rightarrow> real \<Rightarrow> filling \<Rightarrow> nat \<Rightarrow> Tick \<Rightarrow> request" where
  "close_request pos ticket symbol volume filling_type attempt tick =
     \<lparr>req_symbol = symbol, req_volume = volume,
      req_type = (if pos_type pos = POSITION_TYPE_BUY then ORDER_TYPE_SELL else ORDER_TYPE_BUY),
      req_position = Some ticket,
      req_price = (if pos_type pos = POSITION_TYPE_BUY then bid tick else ask tick),
      req_deviation = 20 + int attempt * 10, req_magic = pos_magic pos,
      req_comment = CloseComment ticket, req_type_filling = filling_type,
      req_sl = None, req_tp = None\<rparr>"

fun close_attempts ::
  "venue \<Rightarrow> TradePosition \<Rightarrow> int \<Rightarrow> symbol \<Rightarrow> real \<Rightarrow> filling list \<Rightarrow> int \<Rightarrow> filling \<Rightarrow>
   nat list \<Rightarrow> (error + close_data) \<times> request list" where
  "close_attempts v pos ticket symbol volume fills max_retries filling_type [] =
     (Inl (CloseFailedAfter max_retries), [])"
| "close_attempts v pos ticket symbol volume fills max_retries filling_type (attempt # rest) =
     (case symbol_info_tick v attempt symbol of
        None \<Rightarrow> (Inl (NoPrice symbol), [])
      | Some tick \<Rightarrow>
          (let req = close_request pos ticket symbol volume filling_type attempt tick
           in case order_send v attempt req of
                None \<Rightarrow>
                  (Inl (CloseFailedCode (error_code_of (last_error v attempt))
                          (error_comment_of (last_error v attempt))), [req])
              | Some result \<Rightarrow>
                  if res_retcode result = TRADE_RETCODE_DONE
                  then (Inr \<lparr>cd_deal = res_deal result, cd_retcode = res_retcode result,
                             cd_price = res_price result, cd_volume = res_volume result,
                             cd_profit = pos_profit pos, cd_symbol = symbol,
                             cd_position_type = pos_type pos\<rparr>, [req])
                  else if res_retcode result = 10021 \<and> int attempt < max_retries - 1
                  then apsnd ((#) req)
                         (close_attempts v pos ticket symbol volume fills max_retries
                            (if 1 < length fills then fills ! 1 else filling_type) rest)
                  else (Inl (CloseFailed (error_msg_of (res_retcode result))), [req])))"

text \<open>
  Lines 388-391: the caller's volume, absent or capped at the volume of the position.
\<close>

definition capped_volume :: "real option \<Rightarrow> TradePosition \<Rightarrow> real" where
  "capped_volume volume pos =
     (case volume of None \<Rightarrow> pos_volume pos | Some x \<Rightarrow> min x (pos_volume pos))"

text \<open>\<^verbatim>\<open>symbol or pos.symbol\<close>, line 385: an absent or empty symbol is the position's.\<close>

definition symbol_or :: "symbol option \<Rightarrow> TradePosition \<Rightarrow> symbol" where
  "symbol_or symbol pos =
     (case symbol of None \<Rightarrow> pos_symbol pos | Some s \<Rightarrow> if s = [] then pos_symbol pos else s)"

definition close_trade ::
  "bool \<Rightarrow> venue \<Rightarrow> int \<Rightarrow> real option \<Rightarrow> symbol option \<Rightarrow> int \<Rightarrow>
   (error + close_data) \<times> request list" where
  "close_trade conn v ticket volume symbol max_retries =
     (if \<not> conn then (Inl NotConnected, [])
      else case positions_get v ticket of
        [] \<Rightarrow> (Inl (PositionNotFound ticket), [])
      | pos # others \<Rightarrow>
          (let symb = symbol_or symbol pos
           in if \<not> symbol_select v symb then (Inl (SymbolNotSelected symb), [])
              else case symbol_info v symb of
                None \<Rightarrow> (Inl (SymbolNotFound symb), [])
              | Some info \<Rightarrow>
                  if trade_mode info = 0 then (Inl (SymbolNotTradable symb), [])
                  else if volume_step info = 0 then (Inl ZeroDivisionError, [])
                  else (let vol = normalized_volume info (capped_volume volume pos)
                        in if vol < volume_min info
                           then (Inl (VolumeBelowMinimum vol (volume_min info)), [])
                           else if volume_max info < vol
                           then (Inl (VolumeExceedsMaximum vol (volume_max info)), [])
                           else case supported_fillings (filling_mode info) of
                             [] \<Rightarrow> (Inl (NoSupportedFilling symb), [])
                           | filling_type # rest \<Rightarrow>
                               close_attempts v pos ticket symb vol
                                 (supported_fillings (filling_mode info)) max_retries
                                 filling_type [0..<nat max_retries])))"

section \<open>Example inputs\<close>

definition example_info :: "real \<Rightarrow> real \<Rightarrow> int \<Rightarrow> int \<Rightarrow> SymbolInfo" where
  "example_info vmin vmax fm stops =
     \<lparr>point = 1 / 100, digits = 2, trade_mode = 4, volume_min = vmin, volume_max = vmax,
      volume_step = 1 / 100, stops_level = Some stops, filling_mode = fm\<rparr>"

definition example_tick :: "real \<Rightarrow> real \<Rightarrow> Tick" where
  "example_tick b a = \<lparr>bid = b, ask = a, tick_time = 0\<rparr>"

definition example_position :: "real \<Rightarrow> TradePosition" where
  "example_position vol =
     \<lparr>pos_symbol = ''XAUUSD'', pos_type = POSITION_TYPE_BUY, pos_volume = vol,
      pos_magic = 0, pos_profit = 0\<rparr>"

text \<open>
  A venue that knows one instrument and one position; \<open>codes i\<close> is the return code of
  the i-th submission (\<open>None\<close>: no result) and \<open>errs i\<close> the error it leaves.
\<close>

definition example_venue ::
  "SymbolInfo \<Rightarrow> Tick \<Rightarrow> TradePosition \<Rightarrow> (nat \<Rightarrow> int option) \<Rightarrow> (nat \<Rightarrow> mt5_error) \<Rightarrow> venue" where
  "example_venue info tick pos codes errs =
     \<lparr>symbol_select = (\<lambda>s. True), symbol_info = (\<lambda>s. Some info),
      symbol_info_tick = (\<lambda>i s. Some tick), copy_rates_from_pos = (\<lambda>s. None),
      positions_get = (\<lambda>t. [pos]),
      order_send = (\<lambda>i r. case codes i of
                             None \<Rightarrow> None
                           | Some rc \<Rightarrow> Some \<lparr>res_retcode = rc, res_order = 1, res_deal = 1,
                                             res_volume = req_volume r, res_price = req_price r\<rparr>),
      last_error = errs\<rparr>"

text \<open>
  The selection of the filling mode as the specification words it: the first of FOK, IOC
  and RETURN, in this order, that the capability bitmask contains.
\<close>

definition spec_priority_filling :: "int \<Rightarrow> filling option" where
  "spec_priority_filling fm =
     (if fm AND 1 \<noteq> 0 then Some ORDER_FILLING_FOK
      else if fm AND 2 \<noteq> 0 then Some ORDER_FILLING_IOC
      else if fm AND 4 \<noteq> 0 then Some ORDER_FILLING_RETURN
      else None)"

text \<open>Venues for the examples: every submission is filled; every submission is answered
  with the invalid-request code 10021; only the first one is.\<close>

definition venue_done :: venue where
  "venue_done =
     example_venue (example_info (1 / 100) 10 5 50) (example_tick 2000 2001)
       (example_position 1) (\<lambda>i. Some 10009) (\<lambda>i. ErrTuple 1 '''')"

definition venue_invalid :: venue where
  "venue_invalid =
     example_venue (example_info (1 / 100) 10 7 50) (example_tick 2000 2001)
       (example_position 1) (\<lambda>i. Some 10021) (\<lambda>i. ErrTuple 1 '''')"

definition venue_invalid_once :: venue where
  "venue_invalid_once =
     example_venue (example_info (1 / 100) 10 7 50) (example_tick 2000 2001)
       (example_position 1) (\<lambda>i. if i = 0 then Some 10021 else Some 10009)
       (\<lambda>i. ErrTuple 1 '''')"

definition venue_no_filling :: venue where
  "venue_no_filling =
     example_venue (example_info (1 / 100) 10 0 50) (example_tick 2000 2001)
       (example_position 1) (\<lambda>i. Some 10009) (\<lambda>i. ErrTuple 1 '''')"

text \<open>Venues that give no result: with the error 10013 every time; with another error.
  A venue that answers with the return code 10013. An instrument whose minimum volume
  is above its maximum. An instrument whose minimum stop distance (2.00) is wider than
  its price (1.00).\<close>

definition venue_requote :: venue where
  "venue_requote =
     example_venue (example_info (1 / 100) 10 5 50) (example_tick 2000 2001)
       (example_position 1) (\<lambda>i. None) (\<lambda>i. ErrTuple 10013 ''Requote'')"

definition venue_no_result :: venue where
  "venue_no_result =
     example_venue (example_info (1 / 100) 10 5 50) (example_tick 2000 2001)
       (example_position 1) (\<lambda>i. None) (\<lambda>i. ErrTuple (- 2) ''Invalid params'')"

definition venue_rejected :: venue where
  "venue_rejected =
     example_venue (example_info (1 / 100) 10 5 50) (example_tick 2000 2001)
       (example_position 1) (\<lambda>i. Some 10013) (\<lambda>i. ErrTuple 1 '''')"

definition venue_bad_bounds :: venue where
  "venue_bad_bounds =
     example_venue (example_info 2 1 5 50) (example_tick 2000 2001)
       (example_position 1) (\<lambda>i. Some 10009) (\<lambda>i. ErrTuple 1 '''')"

definition venue_wide_stop :: venue where
  "venue_wide_stop =
     example_venue (example_info (1 / 100) 10 5 200) (example_tick 1 1)
       (example_position 1) (\<lambda>i. Some 10009) (\<lambda>i. ErrTuple 1 '''')"

section \<open>The connector state\<close>

text \<open>
  The fields of \<^verbatim>\<open>MT5Connector\<close> that the operations read and write. The dictionaries
  \<^verbatim>\<open>active_subscriptions\<close> and \<^verbatim>\<open>price_threads\<close> are association lists in insertion
  order, because \<^verbatim>\<open>disconnect\<close> iterates over them. A thread object is a number;
  \<open>spawned\<close> counts the threads created so far and is not a field of the source.
\<close>

type_synonym thread = nat

record symbol_stats =
  sd_high :: "real option"
  sd_low :: "real option"
  sd_last_close :: "real option"
  sd_last_timestamp :: "int option"

record connector =
  connected_flag :: bool
  active_subscriptions :: "(symbol \<times> client_id list) list"
  price_threads :: "(symbol \<times> thread) list"
  symbol_data :: "symbol \<rightharpoonup> symbol_stats"
  shutdown_event :: bool
  spawned :: nat

text \<open>\<^verbatim>\<open>MT5Connector.__init__\<close>.\<close>

definition init_connector :: connector where
  "init_connector =
     \<lparr>connected_flag = False, active_subscriptions = [], price_threads = [],
      symbol_data = Map.empty, shutdown_event = False, spawned = 0\<rparr>"

subsection \<open>\<^verbatim>\<open>MT5Connector.get_price\<close>\<close>

datatype market_status = TRADEABLE | CLOSED

text \<open>The dictionary returned by \<^verbatim>\<open>get_price\<close>, without the wall-clock
  \<^verbatim>\<open>timestamp\<close>; \<open>pd_time\<close> is the epoch second that the source formats.\<close>

record price_data =
  pd_symbol :: symbol
  pd_bid :: real
  pd_ask :: real
  pd_spread :: real
  pd_time :: int
  pd_high :: real
  pd_low :: real
  pd_marketStatus :: market_status

text \<open>\<^verbatim>\<open>x or y\<close> on an optional float: \<^verbatim>\<open>None\<close> and 0.0 are both falsy.\<close>

definition float_or :: "real option \<Rightarrow> real \<Rightarrow> real" where
  "float_or x y = (case x of None \<Rightarrow> y | Some a \<Rightarrow> if a = 0 then y else a)"

text \<open>Lines 151-162: the answer built from the last one-minute bar.\<close>

definition bar_price :: "symbol \<Rightarrow> Rate \<Rightarrow> price_data" where
  "bar_price symbol rate =
     \<lparr>pd_symbol = symbol, pd_bid = rate_close rate, pd_ask = rate_close rate,
      pd_spread = 0, pd_time = rate_time rate, pd_high = rate_high rate,
      pd_low = rate_low rate, pd_marketStatus = CLOSED\<rparr>"

text \<open>Lines 164-190: the answer built from the tick, and the running statistics.\<close>

definition tick_price :: "connector \<Rightarrow> symbol \<Rightarrow> venue \<Rightarrow> Tick \<Rightarrow> price_data \<times> connector" where
  "tick_price s symbol v tick =
     (let symbol_info = symbol_info v symbol;
          spread = (case symbol_info of
                      None \<Rightarrow> 0
                    | Some info \<Rightarrow> if 0 < point info
                                   then (ask tick - bid tick) / point info else 0);
          current_data = (case symbol_data s symbol of
                            None \<Rightarrow> \<lparr>sd_high = None, sd_low = None, sd_last_close = None,
                                     sd_last_timestamp = None\<rparr>
                          | Some d \<Rightarrow> d);
          current_high = max (max (float_or (sd_high current_data) (bid tick)) (bid tick))
                           (ask tick);
          current_low = min (min (float_or (sd_low current_data) (bid tick)) (bid tick))
                          (ask tick);
          closed = (case symbol_info of None \<Rightarrow> False | Some info \<Rightarrow> trade_mode info = 0);
          tradeable = (case symbol_info of None \<Rightarrow> False | Some info \<Rightarrow> trade_mode info \<noteq> 0)
      in (\<lparr>pd_symbol = symbol, pd_bid = bid tick, pd_ask = ask tick, pd_spread = spread,
           pd_time = tick_time tick, pd_high = current_high, pd_low = current_low,
           pd_marketStatus = (if tradeable then TRADEABLE else CLOSED)\<rparr>,
          s\<lparr>symbol_data := (symbol_data s)(symbol \<mapsto>
               \<lparr>sd_high = Some current_high, sd_low = Some current_low,
                sd_last_close = (if closed then Some (bid tick)
                                 else sd_last_close current_data),
                sd_last_timestamp = Some (tick_time tick)\<rparr>)\<rparr>))"

text \<open>Lines 131-149. \<^verbatim>\<open>not rates or not len(rates)\<close> holds for \<^verbatim>\<open>None\<close> and for an
  empty array.\<close>

definition get_price :: "connector \<Rightarrow> symbol \<Rightarrow> venue \<Rightarrow> (error + price_data) \<times> connector" where
  "get_price s symbol v =
     (if \<not> connected_flag s then (Inl NotConnected, s)
      else if \<not> symbol_select v symbol then (Inl (SymbolNotSelected symbol), s)
      else case symbol_info_tick v 0 symbol of
        None \<Rightarrow>
          (case copy_rates_from_pos v symbol of
             None \<Rightarrow> (Inl (NoPriceData symbol), s)
           | Some [] \<Rightarrow> (Inl (NoPriceData symbol), s)
           | Some (rate # others) \<Rightarrow> (Inr (bar_price symbol rate), s))
      | Some tick \<Rightarrow>
          (case tick_price s symbol v tick of (pd, s') \<Rightarrow> (Inr pd, s')))"

subsection \<open>\<^verbatim>\<open>start_price_stream\<close> and \<^verbatim>\<open>stop_price_stream\<close>\<close>

text \<open>\<^verbatim>\<open>self.active_subscriptions.get(symbol, [])\<close>.\<close>

definition subscribers :: "connector \<Rightarrow> symbol \<Rightarrow> client_id list" where
  "subscribers s symbol =
     (case map_of (active_subscriptions s) symbol of None \<Rightarrow> [] | Some cs \<Rightarrow> cs)"

text \<open>
  Lines 195-201 and 237-239. The worker that the new thread runs is \<open>price_worker\<close>
  below; its steps interleave with the other operations.
\<close>

definition start_price_stream :: "symbol \<Rightarrow> client_id \<Rightarrow> connector \<Rightarrow> connector" where
  "start_price_stream symbol client_id s =
     (if map_of (price_threads s) symbol \<noteq> None
      then (if client_id \<notin> set (subscribers s symbol)
            then s\<lparr>active_subscriptions :=
                     AList.update symbol (subscribers s symbol @ [client_id])
                       (active_subscriptions s)\<rparr>
            else s)
      else s\<lparr>active_subscriptions := AList.update symbol [client_id] (active_subscriptions s),
             price_threads := AList.update symbol (spawned s) (price_threads s),
             spawned := Suc (spawned s)\<rparr>)"

text \<open>
  Lines 242-261. \<^verbatim>\<open>if client_id:\<close> is false for \<^verbatim>\<open>None\<close> and for the empty string.
\<close>

definition stop_price_stream :: "symbol \<Rightarrow> client_id option \<Rightarrow> connector \<Rightarrow> connector" where
  "stop_price_stream symbol client_id s =
     (case map_of (active_subscriptions s) symbol of
        None \<Rightarrow> s
      | Some clients \<Rightarrow>
          (case client_id of
             Some c \<Rightarrow>
               if c \<noteq> []
               then (let clients' = (if c \<in> set clients then remove1 c clients else clients)
                     in if clients' = []
                        then s\<lparr>active_subscriptions := AList.delete symbol (active_subscriptions s),
                               price_threads := AList.delete symbol (price_threads s)\<rparr>
                        else s\<lparr>active_subscriptions :=
                                 AList.update symbol clients' (active_subscriptions s)\<rparr>)
               else s\<lparr>active_subscriptions := AList.delete symbol (active_subscriptions s),
                      price_threads := AList.delete symbol (price_threads s)\<rparr>
           | None \<Rightarrow>
               s\<lparr>active_subscriptions := AList.delete symbol (active_subscriptions s),
                 price_threads := AList.delete symbol (price_threads s)\<rparr>))"

subsection \<open>The stream worker: \<^verbatim>\<open>price_worker\<close>\<close>

record worker =
  last_price :: "(real \<times> real) option"
  error_count :: nat

definition max_errors :: nat where
  "max_errors = 5"

text \<open>Line 208, the condition of the loop.\<close>

definition worker_guard :: "symbol \<Rightarrow> connector \<Rightarrow> bool" where
  "worker_guard symbol s \<longleftrightarrow>
     map_of (price_threads s) symbol \<noteq> None \<and> connected_flag s \<and> \<not> shutdown_event s"

text \<open>
  Lines 231-234, after the loop: two statements, each a test and a deletion. The source
  holds no lock here, so another thread can run between the two.
\<close>

definition worker_exit_thread :: "symbol \<Rightarrow> connector \<Rightarrow> connector" where
  "worker_exit_thread symbol s =
     (if map_of (price_threads s) symbol \<noteq> None
      then s\<lparr>price_threads := AList.delete symbol (price_threads s)\<rparr> else s)"

definition worker_exit_subscription :: "symbol \<Rightarrow> connector \<Rightarrow> connector" where
  "worker_exit_subscription symbol s =
     (if map_of (active_subscriptions s) symbol \<noteq> None
      then s\<lparr>active_subscriptions := AList.delete symbol (active_subscriptions s)\<rparr> else s)"

definition worker_exit :: "symbol \<Rightarrow> connector \<Rightarrow> connector" where
  "worker_exit symbol s = worker_exit_subscription symbol (worker_exit_thread symbol s)"

text \<open>
  Lines 209-230, one iteration of the loop. \<open>v\<close> is what the venue answers during this
  iteration and \<open>emit_ok\<close> tells whether \<^verbatim>\<open>socketio.emit\<close> returns (an exception goes to
  the \<^verbatim>\<open>except\<close> branch). The result is: whether the loop breaks, the local variables,
  the connector, and the price data published.
\<close>

definition worker_iteration ::
  "symbol \<Rightarrow> venue \<Rightarrow> bool \<Rightarrow> worker \<Rightarrow> connector \<Rightarrow> bool \<times> worker \<times> connector \<times> price_data list" where
  "worker_iteration symbol v emit_ok w s =
     (case get_price s symbol v of
        (Inr pd, s') \<Rightarrow>
          if Some (pd_bid pd, pd_ask pd) \<noteq> last_price w
          then (if emit_ok
                then (False, w\<lparr>last_price := Some (pd_bid pd, pd_ask pd), error_count := 0\<rparr>,
                      s', [pd])
                else (max_errors \<le> error_count w + 1,
                      w\<lparr>error_count := error_count w + 1\<rparr>, s', []))
          else (False, w, s', [])
      | (Inl e, s') \<Rightarrow>
          (max_errors \<le> error_count w + 1, w\<lparr>error_count := error_count w + 1\<rparr>, s', []))"

datatype worker_status = Running | Ended

text \<open>
  The loop over the iterations that the list describes, with no other operation in
  between. \<open>Running\<close>: the worker sleeps before its next iteration. \<open>Ended\<close>: the loop
  was left and the lines after it ran.
\<close>

fun price_worker ::
  "symbol \<Rightarrow> (venue \<times> bool) list \<Rightarrow> worker \<Rightarrow> connector \<Rightarrow>
   worker_status \<times> worker \<times> connector \<times> price_data list" where
  "price_worker symbol [] w s =
     (if \<not> worker_guard symbol s then (Ended, w, worker_exit symbol s, [])
      else (Running, w, s, []))"
| "price_worker symbol ((v, emit_ok) # rest) w s =
     (if \<not> worker_guard symbol s then (Ended, w, worker_exit symbol s, [])
      else case worker_iteration symbol v emit_ok w s of
        (stop, w', s', out) \<Rightarrow>
          if stop then (Ended, w', worker_exit symbol s', out)
          else (case price_worker symbol rest w' s' of
                  (st, w'', s'', out') \<Rightarrow> (st, w'', s'', out @ out')))"

subsection \<open>\<^verbatim>\<open>connect\<close> and \<^verbatim>\<open>disconnect\<close>\<close>

record AccountInfo =
  acc_login :: int
  trade_expert :: bool

text \<open>What the terminal answers to \<^verbatim>\<open>mt5.initialize\<close>, \<^verbatim>\<open>mt5.login\<close>,
  \<^verbatim>\<open>mt5.last_error\<close> and \<^verbatim>\<open>mt5.account_info\<close>.\<close>

record terminal =
  initialize :: bool
  login :: bool
  login_error :: "int \<times> string"
  account_info :: "AccountInfo option"

datatype connect_error = InitFailed | LoginFailed int string | AutoTradingDisabled

definition connect :: "terminal \<Rightarrow> connector \<Rightarrow> (connect_error + int option) \<times> connector" where
  "connect t s =
     (if \<not> initialize t then (Inl InitFailed, s)
      else if \<not> login t then (Inl (LoginFailed (fst (login_error t)) (snd (login_error t))), s)
      else (let s' = s\<lparr>connected_flag := True, shutdown_event := False\<rparr>
            in case account_info t of
                 None \<Rightarrow> (Inr None, s')
               | Some a \<Rightarrow> if \<not> trade_expert a then (Inl AutoTradingDisabled, s')
                           else (Inr (Some (acc_login a)), s')))"

text \<open>
  Lines 63-83. The third component lists the calls that act on the workers and on the
  venue, in the order of the source; \<open>is_alive\<close> is \<^verbatim>\<open>thread.is_alive()\<close>.
\<close>

datatype effect = SetShutdown | StopPriceStream symbol | Join thread | Mt5Shutdown

definition disconnect ::
  "(thread \<Rightarrow> bool) \<Rightarrow> connector \<Rightarrow> (error + unit) \<times> connector \<times> effect list" where
  "disconnect is_alive s =
     (let s1 = s\<lparr>connected_flag := False, shutdown_event := True\<rparr>;
          symbols = map fst (price_threads s1);
          s2 = fold (\<lambda>symbol. stop_price_stream symbol None) symbols s1;
          joined = filter is_alive (map snd (price_threads s2));
          s3 = s2\<lparr>active_subscriptions := [], price_threads := []\<rparr>
      in (Inr (), s3,
          [SetShutdown] @ map StopPriceStream symbols @ map Join joined @ [Mt5Shutdown]))"

section \<open>The states reached by operations that run in turn\<close>

text \<open>
  The states that the connector reaches when its operations run one at a time, each to
  its end: a request handler is not interrupted, and a worker runs some iterations of
  its loop (and, when it leaves the loop, its two closing statements) between two
  requests. This is not every state of the program: the source takes no lock around
  \<^verbatim>\<open>active_subscriptions\<close> and \<^verbatim>\<open>price_threads\<close>, and threads that interleave inside
  these operations reach other states, such as \<open>race_state\<close> below.
\<close>

inductive reachable_in_turn :: "connector \<Rightarrow> bool" where
  init: "reachable_in_turn init_connector"
| connect: "reachable_in_turn s \<Longrightarrow> reachable_in_turn (snd (connect t s))"
| disconnect: "reachable_in_turn s \<Longrightarrow> reachable_in_turn (fst (snd (disconnect is_alive s)))"
| get_price: "reachable_in_turn s \<Longrightarrow> reachable_in_turn (snd (get_price s symbol v))"
| start_price_stream:
    "reachable_in_turn s \<Longrightarrow> reachable_in_turn (start_price_stream symbol client_id s)"
| stop_price_stream:
    "reachable_in_turn s \<Longrightarrow> reachable_in_turn (stop_price_stream symbol client s)"
| price_worker:
    "reachable_in_turn s \<Longrightarrow>
       reachable_in_turn (fst (snd (snd (price_worker symbol envs w s))))"

text \<open>
  The invariant of the two dictionaries: they have the same keys, and no symbol is kept
  with an empty list of subscribers.
\<close>

definition registry_ok :: "connector \<Rightarrow> bool" where
  "registry_ok s \<longleftrightarrow>
     (\<forall>symbol. map_of (price_threads s) symbol \<noteq> None
                 \<longleftrightarrow> map_of (active_subscriptions s) symbol \<noteq> None) \<and>
     (\<forall>symbol cs. map_of (active_subscriptions s) symbol = Some cs \<longrightarrow> cs \<noteq> [])"

text \<open>A venue that selects no symbol, one with neither tick nor bar, one with a bar only.\<close>

definition venue_down :: venue where
  "venue_down = venue_done\<lparr>symbol_select := (\<lambda>s. False)\<rparr>"

definition venue_silent :: venue where
  "venue_silent = venue_done\<lparr>symbol_info_tick := (\<lambda>i s. None)\<rparr>"

definition venue_bar :: venue where
  "venue_bar =
     venue_done\<lparr>symbol_info_tick := (\<lambda>i s. None),
       copy_rates_from_pos :=
         (\<lambda>s. Some [\<lparr>rate_time = 60, rate_high = 2010, rate_low = 1990, rate_close = 2005\<rparr>])\<rparr>"

text \<open>A connected state with one subscriber of XAUUSD, and a fresh worker.\<close>

definition example_streaming :: connector where
  "example_streaming =
     start_price_stream ''XAUUSD'' ''a'' (init_connector\<lparr>connected_flag := True\<rparr>)"

definition fresh_worker :: worker where
  "fresh_worker = \<lparr>last_price = None, error_count = 0\<rparr>"

text \<open>
  A schedule of two threads on \<open>example_streaming\<close>, where thread 0 serves XAUUSD for
  the client a. The worker has left its loop and runs line 232; then the client b
  subscribes to XAUUSD (lines 196-239, which find no worker and start thread 1); then
  the old worker runs line 234.
\<close>

definition race_state :: connector where
  "race_state =
     worker_exit_subscription ''XAUUSD''
       (start_price_stream ''XAUUSD'' ''b'' (worker_exit_thread ''XAUUSD'' example_streaming))"

text \<open>A terminal that accepts the login, and \<^verbatim>\<open>is_alive\<close> for threads that all still
  run.\<close>

definition example_terminal :: terminal where
  "example_terminal =
     \<lparr>initialize = True, login = True, login_error = (1, ''''), account_info = None\<rparr>"

definition all_alive :: "thread \<Rightarrow> bool" where
  "all_alive t = True"

text \<open>
  The session after a successful \<^verbatim>\<open>connect\<close>; then the clients a and b subscribe to
  XAUUSD, a unsubscribes, b unsubscribes.
\<close>

definition connected_state :: connector where
  "connected_state = snd (connect example_terminal init_connector)"

definition two_subscribed :: connector where
  "two_subscribed =
     start_price_stream ''XAUUSD'' ''b'' (start_price_stream ''XAUUSD'' ''a'' connected_state)"

definition one_left :: connector where
  "one_left = stop_price_stream ''XAUUSD'' (Some ''a'') two_subscribed"

definition none_left :: connector where
  "none_left = stop_price_stream ''XAUUSD'' (Some ''b'') one_left"

section \<open>Properties of order placement and position closing\<close>


lemmas example_defs = example_venue_def example_info_def example_tick_def example_position_def
  venue_done_def venue_invalid_def venue_invalid_once_def venue_no_filling_def
  venue_requote_def venue_no_result_def venue_rejected_def venue_bad_bounds_def
  venue_wide_stop_def
lemmas place_defs = place_trade_def upper_def upper_char_def side_of_def supported_fillings_def
  place_request_def raw_stop_def floored_stop_def send_order_def check_result_def
  normalized_volume_def py_round_def py_round_nd_def stop_level_of_def TRADE_RETCODE_DONE_def
  error_msg_of_def error_codes_def Let_def
lemmas close_defs = close_trade_def symbol_or_def capped_volume_def supported_fillings_def
  close_request_def normalized_volume_def py_round_def TRADE_RETCODE_DONE_def
  error_msg_of_def error_codes_def Let_def upt_conv_Cons

lemma send_order_log:
  "r \<in> set (snd (send_order v req sl tp c)) \<Longrightarrow> r = req \<or> r = req\<lparr>req_deviation := 50\<rparr>"
  by (auto simp: send_order_def Let_def split: option.splits if_splits)

lemma place_trade_submits:
  assumes "conn" "symbol_select v symbol" "symbol_info v symbol = Some info"
    "trade_mode info \<noteq> 0" "symbol_info_tick v 0 symbol = Some tick"
    "side_of (upper order_type) = Some side" "volume_step info \<noteq> 0"
    "supported_fillings (filling_mode info) = f # rest"
  shows "place_trade conn v symbol volume order_type sld tpd comment magic =
           (case place_request info tick symbol volume side sld tpd comment magic f of
              (req, sl, tp) \<Rightarrow> send_order v req sl tp comment)"
  using assms by (simp add: place_trade_def)

lemma place_trade_log_nonempty:
  assumes "snd (place_trade conn v symbol volume order_type sld tpd comment magic) \<noteq> []"
  shows "\<exists>info tick side f rest. conn \<and> symbol_select v symbol \<and> symbol_info v symbol = Some info \<and>
    trade_mode info \<noteq> 0 \<and> symbol_info_tick v 0 symbol = Some tick \<and>
    side_of (upper order_type) = Some side \<and> volume_step info \<noteq> 0 \<and>
    supported_fillings (filling_mode info) = f # rest"
  using assms by (auto simp: place_trade_def split: if_splits option.splits list.splits)

lemma place_trade_request:
  assumes "r \<in> set (snd (place_trade conn v symbol volume order_type sld tpd comment magic))"
  shows "\<exists>info tick side f rest req. symbol_info v symbol = Some info \<and>
    symbol_info_tick v 0 symbol = Some tick \<and>
    side_of (upper order_type) = Some side \<and>
    supported_fillings (filling_mode info) = f # rest \<and>
    req = fst (place_request info tick symbol volume side sld tpd comment magic f) \<and>
    (r = req \<or> r = req\<lparr>req_deviation := 50\<rparr>)"
proof -
  from assms have "snd (place_trade conn v symbol volume order_type sld tpd comment magic) \<noteq> []"
    by auto
  from place_trade_log_nonempty [OF this] obtain info tick side f rest where
    h: "conn" "symbol_select v symbol" "symbol_info v symbol = Some info"
    "trade_mode info \<noteq> 0" "symbol_info_tick v 0 symbol = Some tick"
    "side_of (upper order_type) = Some side" "volume_step info \<noteq> 0"
    "supported_fillings (filling_mode info) = f # rest" by blast
  obtain req sl tp where
    pr: "place_request info tick symbol volume side sld tpd comment magic f = (req, sl, tp)"
    by (cases "place_request info tick symbol volume side sld tpd comment magic f") auto
  from assms have "r \<in> set (snd (send_order v req sl tp comment))"
    by (simp add: place_trade_submits [OF h] pr)
  then have "r = req \<or> r = req\<lparr>req_deviation := 50\<rparr>" by (rule send_order_log)
  with h pr show ?thesis by auto
qed

lemma place_request_fields:
  "req_volume (fst (place_request info tick symbol volume side sld tpd comment magic f)) = normalized_volume info volume"
  "req_type_filling (fst (place_request info tick symbol volume side sld tpd comment magic f)) = f"
  "req_deviation (fst (place_request info tick symbol volume side sld tpd comment magic f)) = 20"
  by (simp_all add: place_request_def Let_def split: prod.splits)

lemma close_attempts_log:
  "r \<in> set (snd (close_attempts v pos ticket symb vol fills mr ft atts)) \<Longrightarrow>
     req_volume r = vol \<and> (req_type_filling r = ft \<or> (1 < length fills \<and> req_type_filling r = fills ! 1))"
proof (induction atts arbitrary: ft)
  case Nil
  then show ?case by simp
next
  case (Cons a atts)
  then show ?case
    by (auto simp: Let_def close_request_def split: option.splits if_splits)
qed

lemma close_trade_log_nonempty:
  assumes "snd (close_trade conn v ticket volume symbol mr) \<noteq> []"
  shows "\<exists>pos others info f rest. conn \<and> positions_get v ticket = pos # others \<and>
    symbol_select v (symbol_or symbol pos) \<and> symbol_info v (symbol_or symbol pos) = Some info \<and>
    trade_mode info \<noteq> 0 \<and> volume_step info \<noteq> 0 \<and>
    \<not> normalized_volume info (capped_volume volume pos) < volume_min info \<and>
    \<not> volume_max info < normalized_volume info (capped_volume volume pos) \<and>
    supported_fillings (filling_mode info) = f # rest \<and>
    close_trade conn v ticket volume symbol mr =
      close_attempts v pos ticket (symbol_or symbol pos)
        (normalized_volume info (capped_volume volume pos))
        (supported_fillings (filling_mode info)) mr f [0..<nat mr]"
  using assms
  by (auto simp: close_trade_def Let_def split: if_splits option.splits list.splits)

text \<open>
  Claim C1, as amended. Every request that \<^verbatim>\<open>place_trade\<close> submits carries the volume
  \<open>max volume_min (min volume_max (round (volume / volume_step) * volume_step))\<close> of the
  requested volume. Every request that \<^verbatim>\<open>close_trade\<close> submits carries the same
  expression of the requested volume capped at the volume of the position (of the
  volume of the position when no volume is requested).
\<close>

theorem volume_normalization:
  "(r \<in> set (snd (place_trade conn v symbol volume order_type sld tpd comment magic)) \<longrightarrow>
      symbol_info v symbol = Some info \<longrightarrow>
      req_volume r =
        max (volume_min info)
          (min (volume_max info) (of_int (py_round (volume / volume_step info)) * volume_step info)))
   \<and> (r' \<in> set (snd (close_trade conn v ticket cvolume csymbol max_retries)) \<longrightarrow>
      positions_get v ticket = pos # others \<longrightarrow>
      symbol_info v (symbol_or csymbol pos) = Some cinfo \<longrightarrow>
      req_volume r' =
        max (volume_min cinfo)
          (min (volume_max cinfo)
             (of_int (py_round ((case cvolume of None \<Rightarrow> pos_volume pos
                                 | Some x \<Rightarrow> min x (pos_volume pos)) / volume_step cinfo))
              * volume_step cinfo)))"
proof (intro conjI impI)
  assume r: "r \<in> set (snd (place_trade conn v symbol volume order_type sld tpd comment magic))"
    and i: "symbol_info v symbol = Some info"
  from place_trade_request [OF r] i show
    "req_volume r = max (volume_min info)
       (min (volume_max info) (of_int (py_round (volume / volume_step info)) * volume_step info))"
    by (auto simp: place_request_fields normalized_volume_def)
next
  assume r: "r' \<in> set (snd (close_trade conn v ticket cvolume csymbol max_retries))"
    and p: "positions_get v ticket = pos # others"
    and i: "symbol_info v (symbol_or csymbol pos) = Some cinfo"
  from r have "snd (close_trade conn v ticket cvolume csymbol max_retries) \<noteq> []" by auto
  from close_trade_log_nonempty [OF this] p i obtain f where
    "close_trade conn v ticket cvolume csymbol max_retries =
      close_attempts v pos ticket (symbol_or csymbol pos)
        (normalized_volume cinfo (capped_volume cvolume pos))
        (supported_fillings (filling_mode cinfo)) max_retries f [0..<nat max_retries]"
    by auto
  with r have "req_volume r' = normalized_volume cinfo (capped_volume cvolume pos)"
    using close_attempts_log by metis
  then show "req_volume r' =
        max (volume_min cinfo)
          (min (volume_max cinfo)
             (of_int (py_round ((case cvolume of None \<Rightarrow> pos_volume pos
                                 | Some x \<Rightarrow> min x (pos_volume pos)) / volume_step cinfo))
              * volume_step cinfo))"
    by (simp add: normalized_volume_def capped_volume_def)
qed

text \<open>
  Witness: a placement of 0.127 lots on an instrument with step 0.01, minimum 0.01 and
  maximum 10 submits 0.13; a close of 5 lots on a position of 1 lot submits 1.
\<close>

theorem volume_normalization_witness:
  "\<lparr>req_symbol = ''XAUUSD'', req_volume = 13 / 100, req_type = ORDER_TYPE_BUY,
     req_position = None, req_price = 2001, req_deviation = 20, req_magic = 0,
     req_comment = Comment '''', req_type_filling = ORDER_FILLING_FOK, req_sl = None,
     req_tp = None\<rparr>
     \<in> set (snd (place_trade True venue_done ''XAUUSD'' (127 / 1000) ''buy'' None None '''' 0))
   \<and> symbol_info venue_done ''XAUUSD'' = Some (example_info (1 / 100) 10 5 50)
   \<and> max (volume_min (example_info (1 / 100) 10 5 50))
        (min (volume_max (example_info (1 / 100) 10 5 50))
           (of_int (py_round (127 / 1000 / volume_step (example_info (1 / 100) 10 5 50)))
            * volume_step (example_info (1 / 100) 10 5 50))) = 13 / 100
   \<and> close_request (example_position 1) 7 ''XAUUSD'' 1 ORDER_FILLING_FOK 0 (example_tick 2000 2001)
     \<in> set (snd (close_trade True venue_done 7 (Some 5) None 3))
   \<and> positions_get venue_done 7 = [example_position 1]
   \<and> symbol_info venue_done (symbol_or None (example_position 1))
       = Some (example_info (1 / 100) 10 5 50)
   \<and> req_volume (close_request (example_position 1) 7 ''XAUUSD'' 1 ORDER_FILLING_FOK 0
        (example_tick 2000 2001)) = 1"
proof -
  let ?r = "\<lparr>req_symbol = ''XAUUSD'', req_volume = 13 / 100, req_type = ORDER_TYPE_BUY,
     req_position = None, req_price = 2001, req_deviation = 20, req_magic = 0,
     req_comment = Comment '''', req_type_filling = ORDER_FILLING_FOK, req_sl = None,
     req_tp = None\<rparr>"
  let ?c = "close_request (example_position 1) 7 ''XAUUSD'' 1 ORDER_FILLING_FOK 0
        (example_tick 2000 2001)"
  have p: "snd (place_trade True venue_done ''XAUUSD'' (127 / 1000) ''buy'' None None '''' 0) = [?r]"
    by (simp add: place_defs example_defs)
  have c: "snd (close_trade True venue_done 7 (Some 5) None 3) = [?c]"
    by (simp add: close_defs example_defs)
  have i: "symbol_info venue_done ''XAUUSD'' = Some (example_info (1 / 100) 10 5 50)"
    "positions_get venue_done 7 = [example_position 1]"
    "symbol_info venue_done (symbol_or None (example_position 1))
       = Some (example_info (1 / 100) 10 5 50)"
    by (simp_all add: example_defs)
  have n: "max (volume_min (example_info (1 / 100) 10 5 50))
        (min (volume_max (example_info (1 / 100) 10 5 50))
           (of_int (py_round (127 / 1000 / volume_step (example_info (1 / 100) 10 5 50)))
            * volume_step (example_info (1 / 100) 10 5 50))) = 13 / 100"
    by (simp add: example_defs py_round_def)
  have v: "req_volume ?c = 1" by (simp add: close_request_def)
  from volume_normalization [where r = ?r and conn = True and v = venue_done
      and symbol = "''XAUUSD''" and volume = "127 / 1000" and order_type = "''buy''"
      and sld = None and tpd = None and comment = "''''" and magic = 0
      and info = "example_info (1 / 100) 10 5 50" and r' = ?c and ticket = 7
      and cvolume = "Some 5" and csymbol = None and max_retries = 3
      and pos = "example_position 1" and others = "[]"
      and cinfo = "example_info (1 / 100) 10 5 50"]
  show ?thesis using p c i n v by simp
qed

text \<open>
  The formula applied to the volume the caller asked for does not give the volume of a
  close: asked to close 5 lots of a position of 1 lot, \<^verbatim>\<open>close_trade\<close> submits 1 lot,
  where the formula on 5 gives 5.
\<close>

theorem volume_normalization_counterexample:
  "map req_volume (snd (close_trade True venue_done 7 (Some 5) None 3)) = [1]
   \<and> max (volume_min (example_info (1 / 100) 10 5 50))
        (min (volume_max (example_info (1 / 100) 10 5 50))
           (of_int (py_round (5 / volume_step (example_info (1 / 100) 10 5 50)))
            * volume_step (example_info (1 / 100) 10 5 50))) = 5
   \<and> symbol_info venue_done ''XAUUSD'' = Some (example_info (1 / 100) 10 5 50)"
  by (simp add: close_defs example_defs)

lemma spec_priority_filling_hd:
  "supported_fillings fm = f # rest \<Longrightarrow> spec_priority_filling fm = Some f"
  by (auto simp: supported_fillings_def spec_priority_filling_def split: if_splits)

lemma spec_priority_filling_None:
  "spec_priority_filling fm = None \<longleftrightarrow> supported_fillings fm = []"
  by (auto simp: supported_fillings_def spec_priority_filling_def split: if_splits)

lemma close_attempts_fillings:
  assumes l: "snd (close_attempts v pos ticket symb vol fills mr ft atts) = r0 # later"
  shows "req_type_filling r0 = ft \<and>
     (\<forall>r \<in> set later. req_type_filling r = (if 1 < length fills then fills ! 1 else ft))"
proof (cases atts)
  case Nil
  with l show ?thesis by simp
next
  case (Cons a rest)
  show ?thesis
  proof (intro conjI ballI)
    from l Cons show "req_type_filling r0 = ft"
      by (auto simp: Let_def close_request_def split: option.splits if_splits)
  next
    fix r assume r: "r \<in> set later"
    with l Cons have
      "r \<in> set (snd (close_attempts v pos ticket symb vol fills mr
                       (if 1 < length fills then fills ! 1 else ft) rest))"
      by (auto simp: Let_def split: option.splits if_splits)
    from close_attempts_log [OF this]
    show "req_type_filling r = (if 1 < length fills then fills ! 1 else ft)"
      by (auto split: if_splits)
  qed
qed

lemma supported_fillings_second:
  "supported_fillings fm = f # rest \<Longrightarrow>
     (if 1 < length (supported_fillings fm) then supported_fillings fm ! 1 else f)
       \<in> set (supported_fillings fm)"
  by (cases rest) auto

text \<open>
  Claim C3, as amended. Every request of \<^verbatim>\<open>place_trade\<close>, and the first request of
  \<^verbatim>\<open>close_trade\<close>, carries the first member of the instrument's filling bitmask in the
  order FOK, IOC, RETURN. A later request of \<^verbatim>\<open>close_trade\<close> (one that follows an
  invalid-request answer) carries the second supported mode when there is one and the
  first otherwise, always a member of the capability set. When the bitmask contains none
  of the three, nothing is submitted, and an operation that passed the earlier checks
  fails with the no-supported-filling error.
\<close>

theorem filling_mode_selection:
  "(r \<in> set (snd (place_trade conn v symbol volume order_type sld tpd comment magic)) \<longrightarrow>
      symbol_info v symbol = Some info \<longrightarrow>
      spec_priority_filling (filling_mode info) = Some (req_type_filling r))
   \<and> (snd (close_trade conn v ticket cvolume csymbol max_retries) = r0 # later \<longrightarrow>
      positions_get v ticket = pos # others \<longrightarrow>
      symbol_info v (symbol_or csymbol pos) = Some cinfo \<longrightarrow>
      spec_priority_filling (filling_mode cinfo) = Some (req_type_filling r0) \<and>
      (\<forall>r' \<in> set later.
         req_type_filling r' =
           (if 1 < length (supported_fillings (filling_mode cinfo))
            then supported_fillings (filling_mode cinfo) ! 1 else req_type_filling r0) \<and>
         req_type_filling r' \<in> set (supported_fillings (filling_mode cinfo))))
   \<and> (symbol_info v symbol = Some info \<longrightarrow>
      spec_priority_filling (filling_mode info) = None \<longrightarrow>
      snd (place_trade conn v symbol volume order_type sld tpd comment magic) = [] \<and>
      (conn \<and> symbol_select v symbol \<and> trade_mode info \<noteq> 0 \<and>
       symbol_info_tick v 0 symbol \<noteq> None \<and> side_of (upper order_type) \<noteq> None \<and>
       volume_step info \<noteq> 0 \<longrightarrow>
       fst (place_trade conn v symbol volume order_type sld tpd comment magic)
         = Inl (NoSupportedFilling symbol)))
   \<and> (positions_get v ticket = pos # others \<longrightarrow>
      symbol_info v (symbol_or csymbol pos) = Some cinfo \<longrightarrow>
      spec_priority_filling (filling_mode cinfo) = None \<longrightarrow>
      snd (close_trade conn v ticket cvolume csymbol max_retries) = [] \<and>
      (conn \<and> symbol_select v (symbol_or csymbol pos) \<and> trade_mode cinfo \<noteq> 0 \<and>
       volume_step cinfo \<noteq> 0 \<and>
       normalized_volume cinfo (capped_volume cvolume pos) \<le> volume_max cinfo \<longrightarrow>
       fst (close_trade conn v ticket cvolume csymbol max_retries)
         = Inl (NoSupportedFilling (symbol_or csymbol pos))))"
proof (intro conjI impI)
  assume r: "r \<in> set (snd (place_trade conn v symbol volume order_type sld tpd comment magic))"
    and i: "symbol_info v symbol = Some info"
  from place_trade_request [OF r] i
  show "spec_priority_filling (filling_mode info) = Some (req_type_filling r)"
    by (auto simp: place_request_fields spec_priority_filling_hd)
next
  assume l: "snd (close_trade conn v ticket cvolume csymbol max_retries) = r0 # later"
    and p: "positions_get v ticket = pos # others"
    and i: "symbol_info v (symbol_or csymbol pos) = Some cinfo"
  from l have "snd (close_trade conn v ticket cvolume csymbol max_retries) \<noteq> []" by simp
  from close_trade_log_nonempty [OF this] p i obtain f rest where
    s: "supported_fillings (filling_mode cinfo) = f # rest" and
    c: "close_trade conn v ticket cvolume csymbol max_retries =
      close_attempts v pos ticket (symbol_or csymbol pos)
        (normalized_volume cinfo (capped_volume cvolume pos))
        (supported_fillings (filling_mode cinfo)) max_retries f [0..<nat max_retries]"
    by auto
  from close_attempts_fillings [OF l [unfolded c]]
  have f: "req_type_filling r0 = f"
    and m: "\<forall>r \<in> set later. req_type_filling r =
         (if 1 < length (supported_fillings (filling_mode cinfo))
          then supported_fillings (filling_mode cinfo) ! 1 else f)"
    by simp_all
  from f s have 1: "spec_priority_filling (filling_mode cinfo) = Some (req_type_filling r0)"
    by (simp add: spec_priority_filling_hd)
  have 2: "\<forall>r' \<in> set later.
         req_type_filling r' =
           (if 1 < length (supported_fillings (filling_mode cinfo))
            then supported_fillings (filling_mode cinfo) ! 1 else req_type_filling r0) \<and>
         req_type_filling r' \<in> set (supported_fillings (filling_mode cinfo))"
  proof
    fix r' assume "r' \<in> set later"
    with m f have "req_type_filling r' =
           (if 1 < length (supported_fillings (filling_mode cinfo))
            then supported_fillings (filling_mode cinfo) ! 1 else req_type_filling r0)"
      by simp
    moreover from this f supported_fillings_second [OF s]
    have "req_type_filling r' \<in> set (supported_fillings (filling_mode cinfo))"
      by (auto split: if_splits)
    ultimately show "req_type_filling r' =
           (if 1 < length (supported_fillings (filling_mode cinfo))
            then supported_fillings (filling_mode cinfo) ! 1 else req_type_filling r0) \<and>
         req_type_filling r' \<in> set (supported_fillings (filling_mode cinfo))"
      by (rule conjI)
  qed
  from 1 show "spec_priority_filling (filling_mode cinfo) = Some (req_type_filling r0)" .
  from 2 show "\<forall>r' \<in> set later.
         req_type_filling r' =
           (if 1 < length (supported_fillings (filling_mode cinfo))
            then supported_fillings (filling_mode cinfo) ! 1 else req_type_filling r0) \<and>
         req_type_filling r' \<in> set (supported_fillings (filling_mode cinfo))" .
next
  assume i: "symbol_info v symbol = Some info"
    and n: "spec_priority_filling (filling_mode info) = None"
  from n have e: "supported_fillings (filling_mode info) = []"
    by (simp add: spec_priority_filling_None)
  with i show "snd (place_trade conn v symbol volume order_type sld tpd comment magic) = []"
    by (auto simp: place_trade_def split: option.splits)
next
  assume i: "symbol_info v symbol = Some info"
    and n: "spec_priority_filling (filling_mode info) = None"
    and c: "conn \<and> symbol_select v symbol \<and> trade_mode info \<noteq> 0 \<and>
       symbol_info_tick v 0 symbol \<noteq> None \<and> side_of (upper order_type) \<noteq> None \<and>
       volume_step info \<noteq> 0"
  from n have e: "supported_fillings (filling_mode info) = []"
    by (simp add: spec_priority_filling_None)
  with i c show "fst (place_trade conn v symbol volume order_type sld tpd comment magic)
         = Inl (NoSupportedFilling symbol)"
    by (auto simp: place_trade_def split: option.splits)
next
  assume p: "positions_get v ticket = pos # others"
    and i: "symbol_info v (symbol_or csymbol pos) = Some cinfo"
    and n: "spec_priority_filling (filling_mode cinfo) = None"
  from n have e: "supported_fillings (filling_mode cinfo) = []"
    by (simp add: spec_priority_filling_None)
  with p i show "snd (close_trade conn v ticket cvolume csymbol max_retries) = []"
    by (auto simp: close_trade_def Let_def split: option.splits)
next
  assume p: "positions_get v ticket = pos # others"
    and i: "symbol_info v (symbol_or csymbol pos) = Some cinfo"
    and n: "spec_priority_filling (filling_mode cinfo) = None"
    and c: "conn \<and> symbol_select v (symbol_or csymbol pos) \<and> trade_mode cinfo \<noteq> 0 \<and>
       volume_step cinfo \<noteq> 0 \<and>
       normalized_volume cinfo (capped_volume cvolume pos) \<le> volume_max cinfo"
  from n have e: "supported_fillings (filling_mode cinfo) = []"
    by (simp add: spec_priority_filling_None)
  have "volume_min cinfo \<le> normalized_volume cinfo (capped_volume cvolume pos)"
    by (simp add: normalized_volume_def)
  with e p i c show "fst (close_trade conn v ticket cvolume csymbol max_retries)
         = Inl (NoSupportedFilling (symbol_or csymbol pos))"
    by (auto simp: close_trade_def Let_def split: option.splits)
qed

text \<open>
  Witness: a bitmask with FOK and RETURN but not IOC selects FOK for a placement; a close
  answered once by the invalid-request code submits FOK, then IOC; a bitmask of zero
  fails both operations with nothing submitted.
\<close>

theorem filling_mode_selection_witness:
  "symbol_info venue_done ''XAUUSD'' = Some (example_info (1 / 100) 10 5 50)
   \<and> spec_priority_filling (filling_mode (example_info (1 / 100) 10 5 50)) = Some ORDER_FILLING_FOK
   \<and> map req_type_filling
        (snd (place_trade True venue_done ''XAUUSD'' (127 / 1000) ''buy'' None None '''' 0))
       = [ORDER_FILLING_FOK]
   \<and> positions_get venue_invalid_once 7 = [example_position 1]
   \<and> symbol_info venue_invalid_once (symbol_or None (example_position 1))
       = Some (example_info (1 / 100) 10 7 50)
   \<and> map req_type_filling (snd (close_trade True venue_invalid_once 7 None None 3))
       = [ORDER_FILLING_FOK, ORDER_FILLING_IOC]
   \<and> ORDER_FILLING_IOC \<in> set (supported_fillings (filling_mode (example_info (1 / 100) 10 7 50)))
   \<and> symbol_info venue_no_filling ''XAUUSD'' = Some (example_info (1 / 100) 10 0 50)
   \<and> spec_priority_filling (filling_mode (example_info (1 / 100) 10 0 50)) = None
   \<and> place_trade True venue_no_filling ''XAUUSD'' 1 ''sell'' None None '''' 0
       = (Inl (NoSupportedFilling ''XAUUSD''), [])
   \<and> close_trade True venue_no_filling 7 None None 3
       = (Inl (NoSupportedFilling ''XAUUSD''), [])"
proof -
  let ?r = "\<lparr>req_symbol = ''XAUUSD'', req_volume = 13 / 100, req_type = ORDER_TYPE_BUY,
     req_position = None, req_price = 2001, req_deviation = 20, req_magic = 0,
     req_comment = Comment '''', req_type_filling = ORDER_FILLING_FOK, req_sl = None,
     req_tp = None\<rparr>"
  let ?c0 = "close_request (example_position 1) 7 ''XAUUSD'' 1 ORDER_FILLING_FOK 0
        (example_tick 2000 2001)"
  let ?c1 = "close_request (example_position 1) 7 ''XAUUSD'' 1 ORDER_FILLING_IOC 1
        (example_tick 2000 2001)"
  have p: "snd (place_trade True venue_done ''XAUUSD'' (127 / 1000) ''buy'' None None '''' 0) = [?r]"
    by (simp add: place_defs example_defs)
  have c: "snd (close_trade True venue_invalid_once 7 None None 3) = [?c0, ?c1]"
    by (simp add: close_defs example_defs)
  have i: "symbol_info venue_done ''XAUUSD'' = Some (example_info (1 / 100) 10 5 50)"
    "positions_get venue_invalid_once 7 = [example_position 1]"
    "symbol_info venue_invalid_once (symbol_or None (example_position 1))
       = Some (example_info (1 / 100) 10 7 50)"
    "symbol_info venue_no_filling ''XAUUSD'' = Some (example_info (1 / 100) 10 0 50)"
    "positions_get venue_no_filling 7 = [example_position 1]"
    "symbol_info venue_no_filling (symbol_or None (example_position 1))
       = Some (example_info (1 / 100) 10 0 50)"
    "symbol_or None (example_position 1) = ''XAUUSD''"
    by (simp_all add: example_defs symbol_or_def)
  have n: "spec_priority_filling (filling_mode (example_info (1 / 100) 10 0 50)) = None"
    by (simp add: example_defs spec_priority_filling_def)
  have e: "symbol_select venue_no_filling ''XAUUSD''"
    "trade_mode (example_info (1 / 100) 10 0 50) \<noteq> 0"
    "symbol_info_tick venue_no_filling 0 ''XAUUSD'' \<noteq> None"
    "side_of (upper ''sell'') \<noteq> None"
    "volume_step (example_info (1 / 100) 10 0 50) \<noteq> 0"
    "normalized_volume (example_info (1 / 100) 10 0 50) (capped_volume None (example_position 1))
       \<le> volume_max (example_info (1 / 100) 10 0 50)"
    by (simp_all add: example_defs upper_def upper_char_def side_of_def normalized_volume_def
        capped_volume_def py_round_def)
  have f: "req_type_filling ?r = ORDER_FILLING_FOK" "req_type_filling ?c0 = ORDER_FILLING_FOK"
    "req_type_filling ?c1 = ORDER_FILLING_IOC"
    by (simp_all add: close_request_def)
  note a = filling_mode_selection [where r = ?r and conn = True and v = venue_done
      and symbol = "''XAUUSD''" and volume = "127 / 1000" and order_type = "''buy''"
      and sld = None and tpd = None and comment = "''''" and magic = 0
      and info = "example_info (1 / 100) 10 5 50", THEN conjunct1]
  note b = filling_mode_selection [where conn = True and v = venue_invalid_once and ticket = 7
      and cvolume = None and csymbol = None and max_retries = 3 and ?r0.0 = ?c0
      and later = "[?c1]" and pos = "example_position 1" and others = "[]"
      and cinfo = "example_info (1 / 100) 10 7 50", THEN conjunct2, THEN conjunct1]
  note d = filling_mode_selection [where conn = True and v = venue_no_filling
      and symbol = "''XAUUSD''" and volume = 1 and order_type = "''sell''"
      and sld = None and tpd = None and comment = "''''" and magic = 0
      and info = "example_info (1 / 100) 10 0 50" and ticket = 7
      and cvolume = None and csymbol = None and max_retries = 3
      and pos = "example_position 1" and others = "[]"
      and cinfo = "example_info (1 / 100) 10 0 50", THEN conjunct2, THEN conjunct2]
  from a p i have 1: "spec_priority_filling (filling_mode (example_info (1 / 100) 10 5 50))
      = Some ORDER_FILLING_FOK" by simp
  from b c i f have 2: "ORDER_FILLING_IOC \<in> set (supported_fillings (filling_mode (example_info (1 / 100) 10 7 50)))"
    by (simp add: close_request_def)
  from d i n e have 3: "place_trade True venue_no_filling ''XAUUSD'' 1 ''sell'' None None '''' 0
       = (Inl (NoSupportedFilling ''XAUUSD''), [])"
    "close_trade True venue_no_filling 7 None None 3
       = (Inl (NoSupportedFilling ''XAUUSD''), [])"
    by (simp_all add: prod_eq_iff)
  from 1 2 3 p c i n f show ?thesis by simp
qed

text \<open>
  With all three modes allowed and the first close answered by the invalid-request code,
  the second close request is submitted with IOC, which is not the first member (FOK).
\<close>

theorem filling_mode_selection_counterexample:
  "map req_type_filling (snd (close_trade True venue_invalid_once 7 None None 3))
     = [ORDER_FILLING_FOK, ORDER_FILLING_IOC]
   \<and> spec_priority_filling (filling_mode (example_info (1 / 100) 10 7 50)) = Some ORDER_FILLING_FOK
   \<and> symbol_info venue_invalid_once ''XAUUSD'' = Some (example_info (1 / 100) 10 7 50)"
  by (simp add: close_defs example_defs spec_priority_filling_def)

text \<open>
  Claim C4. In \<^verbatim>\<open>place_trade\<close>, once the checks before the submission have passed, the
  request is submitted with deviation 20. If the venue gives no result and its last
  error has the code 10013, the same request is submitted once more with deviation 50
  and nothing else is submitted; if this second submission gives no result either, the
  call fails with the order-failed error that carries the code and the text of the
  venue's last error. If the first submission gives no result and the code is not 10013,
  or gives a result whose return code is not the success code (whatever it is), the
  call fails at once with the order-failed error and exactly one request was submitted.
\<close>

theorem requote_retry:
  assumes "conn" and "symbol_select v symbol" and "symbol_info v symbol = Some info"
    and "trade_mode info \<noteq> 0" and "symbol_info_tick v 0 symbol = Some tick"
    and "side_of (upper order_type) = Some side" and "volume_step info \<noteq> 0"
    and "supported_fillings (filling_mode info) = f # rest"
    and "place_request info tick symbol volume side sld tpd comment magic f = (req, sl, tp)"
  shows "req_deviation req = 20
    \<and> (order_send v 0 req = None \<and> error_code_of (last_error v 0) = 10013 \<longrightarrow>
         snd (place_trade conn v symbol volume order_type sld tpd comment magic)
           = [req, req\<lparr>req_deviation := 50\<rparr>]
         \<and> (order_send v 1 (req\<lparr>req_deviation := 50\<rparr>) = None \<longrightarrow>
              fst (place_trade conn v symbol volume order_type sld tpd comment magic)
                = Inl (OrderFailedCode (error_code_of (last_error v 1))
                         (error_comment_of (last_error v 1)))))
    \<and> (order_send v 0 req = None \<and> error_code_of (last_error v 0) \<noteq> 10013 \<longrightarrow>
         place_trade conn v symbol volume order_type sld tpd comment magic
           = (Inl (OrderFailedCode (error_code_of (last_error v 0))
                     (error_comment_of (last_error v 0))), [req]))
    \<and> (\<forall>result. order_send v 0 req = Some result \<and> res_retcode result \<noteq> TRADE_RETCODE_DONE \<longrightarrow>
         place_trade conn v symbol volume order_type sld tpd comment magic
           = (Inl (OrderFailed (error_msg_of (res_retcode result))), [req]))"
proof -
  have pt: "place_trade conn v symbol volume order_type sld tpd comment magic
              = send_order v req sl tp comment"
    using assms by (simp add: place_trade_submits)
  have d: "req_deviation req = 20"
    using place_request_fields(3) [of info tick symbol volume side sld tpd comment magic f]
      assms(9) by simp
  show ?thesis
    unfolding pt using d
    by (auto simp: send_order_def check_result_def Let_def split: option.splits)
qed

text \<open>
  Witness: a venue that gives no result and the error 10013 twice receives the
  deviations 20 and 50 and the call fails with that error; a venue that gives no result
  with another error, and one that answers with a return code 10013, receive one request.
\<close>

theorem requote_retry_witness:
  "map req_deviation (snd (place_trade True venue_requote ''XAUUSD'' 1 ''buy'' None None '''' 0))
     = [20, 50]
   \<and> fst (place_trade True venue_requote ''XAUUSD'' 1 ''buy'' None None '''' 0)
     = Inl (OrderFailedCode 10013 ''Requote'')
   \<and> map req_deviation (snd (place_trade True venue_no_result ''XAUUSD'' 1 ''buy'' None None '''' 0))
     = [20]
   \<and> fst (place_trade True venue_no_result ''XAUUSD'' 1 ''buy'' None None '''' 0)
     = Inl (OrderFailedCode (- 2) ''Invalid params'')
   \<and> map req_deviation (snd (place_trade True venue_rejected ''XAUUSD'' 1 ''buy'' None None '''' 0))
     = [20]
   \<and> fst (place_trade True venue_rejected ''XAUUSD'' 1 ''buy'' None None '''' 0)
     = Inl (OrderFailed (ErrorNumber 10013))"
proof -
  let ?info = "example_info (1 / 100) 10 5 50"
  let ?tick = "example_tick 2000 2001"
  let ?r = "\<lparr>req_symbol = ''XAUUSD'', req_volume = 1, req_type = ORDER_TYPE_BUY,
     req_position = None, req_price = 2001, req_deviation = 20, req_magic = 0,
     req_comment = Comment '''', req_type_filling = ORDER_FILLING_FOK, req_sl = None,
     req_tp = None\<rparr>"
  have pr: "place_request ?info ?tick ''XAUUSD'' 1 ORDER_TYPE_BUY None None '''' 0 ORDER_FILLING_FOK
              = (?r, 0, 0)"
    by (simp add: place_defs example_defs)
  have s: "side_of (upper ''buy'') = Some ORDER_TYPE_BUY"
    by (simp add: side_of_def upper_def upper_char_def)
  have f: "supported_fillings (filling_mode ?info) = ORDER_FILLING_FOK # [ORDER_FILLING_RETURN]"
    by (simp add: supported_fillings_def example_defs)
  have i: "trade_mode ?info \<noteq> 0" "volume_step ?info \<noteq> 0"
    by (simp_all add: example_defs)
  have a: "symbol_select venue_requote ''XAUUSD''"
    "symbol_info venue_requote ''XAUUSD'' = Some ?info"
    "symbol_info_tick venue_requote 0 ''XAUUSD'' = Some ?tick"
    "order_send venue_requote 0 ?r = None" "error_code_of (last_error venue_requote 0) = 10013"
    "order_send venue_requote 1 (?r\<lparr>req_deviation := 50\<rparr>) = None"
    "error_code_of (last_error venue_requote 1) = 10013"
    "error_comment_of (last_error venue_requote 1) = ''Requote''"
    by (simp_all add: example_defs)
  have b: "symbol_select venue_no_result ''XAUUSD''"
    "symbol_info venue_no_result ''XAUUSD'' = Some ?info"
    "symbol_info_tick venue_no_result 0 ''XAUUSD'' = Some ?tick"
    "order_send venue_no_result 0 ?r = None" "error_code_of (last_error venue_no_result 0) = - 2"
    "error_comment_of (last_error venue_no_result 0) = ''Invalid params''"
    by (simp_all add: example_defs)
  have c: "symbol_select venue_rejected ''XAUUSD''"
    "symbol_info venue_rejected ''XAUUSD'' = Some ?info"
    "symbol_info_tick venue_rejected 0 ''XAUUSD'' = Some ?tick"
    "order_send venue_rejected 0 ?r = Some \<lparr>res_retcode = 10013, res_order = 1, res_deal = 1,
        res_volume = 1, res_price = 2001\<rparr>"
    by (simp_all add: example_defs)
  have m: "error_msg_of 10013 = ErrorNumber 10013"
    by (simp add: error_msg_of_def error_codes_def)
  from requote_retry [OF TrueI a(1) a(2) i(1) a(3) s i(2) f pr] a
  have 1: "place_trade True venue_requote ''XAUUSD'' 1 ''buy'' None None '''' 0
     = (Inl (OrderFailedCode 10013 ''Requote''), [?r, ?r\<lparr>req_deviation := 50\<rparr>])"
    by (simp add: prod_eq_iff)
  from requote_retry [OF TrueI b(1) b(2) i(1) b(3) s i(2) f pr] b
  have 2: "place_trade True venue_no_result ''XAUUSD'' 1 ''buy'' None None '''' 0
     = (Inl (OrderFailedCode (- 2) ''Invalid params''), [?r])"
    by simp
  from requote_retry [OF TrueI c(1) c(2) i(1) c(3) s i(2) f pr] c m
  have 3: "place_trade True venue_rejected ''XAUUSD'' 1 ''buy'' None None '''' 0
     = (Inl (OrderFailed (ErrorNumber 10013)), [?r])"
    by (simp add: TRADE_RETCODE_DONE_def)
  from 1 2 3 show ?thesis by simp
qed

lemma close_attempts_not_exhausted:
  "atts \<noteq> [] \<Longrightarrow> mr - 1 \<le> int (last atts) \<Longrightarrow>
     fst (close_attempts v pos ticket symb vol fills mr ft atts) \<noteq> Inl (CloseFailedAfter k)"
proof (induction atts arbitrary: ft)
  case Nil
  then show ?case by simp
next
  case (Cons a atts)
  show ?case
  proof (cases "atts = []")
    case True
    with Cons.prems show ?thesis
      by (auto simp: Let_def split: option.splits)
  next
    case False
    with Cons.prems have "mr - 1 \<le> int (last atts)" by simp
    from Cons.IH [OF False this] show ?thesis
      by (auto simp: Let_def split: option.splits)
  qed
qed

lemma close_trade_never_exhausted:
  assumes "0 < max_retries"
  shows "fst (close_trade conn v ticket volume symbol max_retries) \<noteq> Inl (CloseFailedAfter k)"
proof -
  from assms have n: "[0..<nat max_retries] \<noteq> []" by simp
  from assms have "last [0..<nat max_retries] = nat max_retries - 1"
    by (metis n last_upt zero_less_nat_eq upt_eq_Nil_conv not_le)
  with assms have l: "max_retries - 1 \<le> int (last [0..<nat max_retries])" by simp
  show ?thesis
    using close_attempts_not_exhausted [OF n l]
    by (auto simp: close_trade_def Let_def split: option.splits list.splits)
qed

text \<open>
  Claim C5 at \<^verbatim>\<open>max_retries = 3\<close> with every submission answered by the
  invalid-request code 10021: the three requests carry the deviations 20, 30 and 40 and
  the filling modes FOK, IOC, IOC, and the call ends with the catalogued close-failed
  message of 10021, not with \<^verbatim>\<open>Close failed after 3 attempts\<close>. By
  \<open>close_trade_never_exhausted\<close> line 465 is reached for no positive
  \<^verbatim>\<open>max_retries\<close>.
\<close>

theorem close_three_invalid_requests:
  "fst (close_trade True venue_invalid 7 None None 3)
     = Inl (CloseFailed (Catalogued ''Invalid request (check volume, symbol, or market status)''))
   \<and> map req_deviation (snd (close_trade True venue_invalid 7 None None 3)) = [20, 30, 40]
   \<and> map req_type_filling (snd (close_trade True venue_invalid 7 None None 3))
       = [ORDER_FILLING_FOK, ORDER_FILLING_IOC, ORDER_FILLING_IOC]"
  by (simp add: close_defs example_defs)



lemma place_request_stops:
  "req_sl (fst (place_request info tick symbol volume side sld tpd comment magic f)) =
     snd (floored_stop (side \<noteq> ORDER_TYPE_BUY)
            (if side = ORDER_TYPE_BUY then ask tick else bid tick) sld (digits info)
            (stop_level_of info)
            (raw_stop (side \<noteq> ORDER_TYPE_BUY)
               (if side = ORDER_TYPE_BUY then ask tick else bid tick) sld (digits info)))"
  "req_tp (fst (place_request info tick symbol volume side sld tpd comment magic f)) =
     snd (floored_stop (side = ORDER_TYPE_BUY)
            (if side = ORDER_TYPE_BUY then ask tick else bid tick) tpd (digits info)
            (stop_level_of info)
            (raw_stop (side = ORDER_TYPE_BUY)
               (if side = ORDER_TYPE_BUY then ask tick else bid tick) tpd (digits info)))"
  by (simp_all add: place_request_def Let_def split: prod.splits)

text \<open>
  Claim C2, as amended. In \<^verbatim>\<open>place_trade\<close> the reference price is the ask for a BUY
  and the bid for a SELL. For a stop-loss or take-profit distance that is strictly
  positive, strictly smaller than the minimum stop distance
  (\<^verbatim>\<open>stops_level * point\<close>) and whose raw level (reference price minus or plus the
  distance, rounded to the digits of the instrument) is not zero, every submitted
  request carries the level recomputed with the minimum stop distance and rounded to
  the digits of the instrument: BUY has the stop-loss below and the take-profit above
  the price, SELL the opposite. A distance that is absent, zero or negative, or whose
  raw level rounds to zero, leaves the level out of the request.
\<close>

theorem stop_distance_floor:
  assumes "r \<in> set (snd (place_trade conn v symbol volume order_type sld tpd comment magic))"
    and "symbol_info v symbol = Some info"
    and "symbol_info_tick v 0 symbol = Some tick"
    and "side_of (upper order_type) = Some side"
    and "price = (if side = ORDER_TYPE_BUY then ask tick else bid tick)"
  shows "(\<forall>d. sld = Some d \<and> 0 < d \<and> d < stop_level_of info \<and>
              py_round_nd (if side = ORDER_TYPE_BUY then price - d else price + d) (digits info) \<noteq> 0
            \<longrightarrow> req_sl r = Some (py_round_nd (if side = ORDER_TYPE_BUY
                                                then price - stop_level_of info
                                                else price + stop_level_of info) (digits info)))
    \<and> (\<forall>d. tpd = Some d \<and> 0 < d \<and> d < stop_level_of info \<and>
              py_round_nd (if side = ORDER_TYPE_BUY then price + d else price - d) (digits info) \<noteq> 0
            \<longrightarrow> req_tp r = Some (py_round_nd (if side = ORDER_TYPE_BUY
                                                then price + stop_level_of info
                                                else price - stop_level_of info) (digits info)))
    \<and> (\<forall>d. sld = Some d \<and>
              (d \<le> 0 \<or> py_round_nd (if side = ORDER_TYPE_BUY then price - d else price + d)
                           (digits info) = 0)
            \<longrightarrow> req_sl r = None)
    \<and> (\<forall>d. tpd = Some d \<and>
              (d \<le> 0 \<or> py_round_nd (if side = ORDER_TYPE_BUY then price + d else price - d)
                           (digits info) = 0)
            \<longrightarrow> req_tp r = None)
    \<and> (sld = None \<longrightarrow> req_sl r = None) \<and> (tpd = None \<longrightarrow> req_tp r = None)"
proof -
  from place_trade_request [OF assms(1)] assms(2-4) obtain f where
    r: "r = fst (place_request info tick symbol volume side sld tpd comment magic f) \<or>
        r = (fst (place_request info tick symbol volume side sld tpd comment magic f))
              \<lparr>req_deviation := 50\<rparr>"
    by auto
  then have sl: "req_sl r =
     snd (floored_stop (side \<noteq> ORDER_TYPE_BUY) price sld (digits info) (stop_level_of info)
            (raw_stop (side \<noteq> ORDER_TYPE_BUY) price sld (digits info)))"
    and tp: "req_tp r =
     snd (floored_stop (side = ORDER_TYPE_BUY) price tpd (digits info) (stop_level_of info)
            (raw_stop (side = ORDER_TYPE_BUY) price tpd (digits info)))"
    using place_request_stops [of info tick symbol volume side sld tpd comment magic f] assms(5)
    by auto
  show ?thesis
    unfolding sl tp
    by (cases side) (auto simp: floored_stop_def raw_stop_def Let_def)
qed

text \<open>
  A BUY at the price 1.00 with a stop-loss distance of 1.00 on an instrument whose minimum
  stop distance is 2.00: the distance is not zero and smaller than the minimum, the raw
  level is 0, and the request is submitted without any stop-loss, not with the level of
  the widened distance.
\<close>

theorem stop_distance_floor_counterexample:
  "map req_sl (snd (place_trade True venue_wide_stop ''XAUUSD'' 1 ''buy'' (Some 1) None '''' 0))
     = [None]
   \<and> symbol_info venue_wide_stop ''XAUUSD'' = Some (example_info (1 / 100) 10 5 200)
   \<and> (1 :: real) < stop_level_of (example_info (1 / 100) 10 5 200)
   \<and> stop_level_of (example_info (1 / 100) 10 5 200) = 2
   \<and> symbol_info_tick venue_wide_stop 0 ''XAUUSD'' = Some (example_tick 1 1)"
  by (simp add: place_defs example_defs)

text \<open>
  Witness: with a minimum stop distance of 0.50 and the tick 2000 / 2001, a BUY with the
  distances 0.10 and 0.20 is submitted with the stop-loss 2000.50 and the take-profit
  2001.50; a SELL with the stop-loss distance 0.10 is submitted with the stop-loss
  2000.50, and its negative take-profit distance leaves the take-profit out.
\<close>

theorem stop_distance_floor_witness:
  "stop_level_of (example_info (1 / 100) 10 5 50) = 1 / 2
   \<and> map req_sl (snd (place_trade True venue_done ''XAUUSD'' 1 ''buy'' (Some (1 / 10))
                        (Some (1 / 5)) '''' 0)) = [Some (4001 / 2)]
   \<and> map req_tp (snd (place_trade True venue_done ''XAUUSD'' 1 ''buy'' (Some (1 / 10))
                        (Some (1 / 5)) '''' 0)) = [Some (4003 / 2)]
   \<and> map req_sl (snd (place_trade True venue_done ''XAUUSD'' 1 ''sell'' (Some (1 / 10))
                        (Some (- 1)) '''' 0)) = [Some (4001 / 2)]
   \<and> map req_tp (snd (place_trade True venue_done ''XAUUSD'' 1 ''sell'' (Some (1 / 10))
                        (Some (- 1)) '''' 0)) = [None]"
proof -
  let ?info = "example_info (1 / 100) 10 5 50"
  let ?tick = "example_tick 2000 2001"
  let ?b = "\<lparr>req_symbol = ''XAUUSD'', req_volume = 1, req_type = ORDER_TYPE_BUY,
     req_position = None, req_price = 2001, req_deviation = 20, req_magic = 0,
     req_comment = Comment '''', req_type_filling = ORDER_FILLING_FOK,
     req_sl = Some (4001 / 2), req_tp = Some (4003 / 2)\<rparr>"
  let ?s = "\<lparr>req_symbol = ''XAUUSD'', req_volume = 1, req_type = ORDER_TYPE_SELL,
     req_position = None, req_price = 2000, req_deviation = 20, req_magic = 0,
     req_comment = Comment '''', req_type_filling = ORDER_FILLING_FOK,
     req_sl = Some (4001 / 2), req_tp = None\<rparr>"
  have b: "snd (place_trade True venue_done ''XAUUSD'' 1 ''buy'' (Some (1 / 10))
                        (Some (1 / 5)) '''' 0) = [?b]"
    by (simp add: place_defs example_defs)
  have s: "snd (place_trade True venue_done ''XAUUSD'' 1 ''sell'' (Some (1 / 10))
                        (Some (- 1)) '''' 0) = [?s]"
    by (simp add: place_defs example_defs)
  have i: "symbol_info venue_done ''XAUUSD'' = Some ?info"
    "symbol_info_tick venue_done 0 ''XAUUSD'' = Some ?tick"
    "side_of (upper ''buy'') = Some ORDER_TYPE_BUY"
    "side_of (upper ''sell'') = Some ORDER_TYPE_SELL"
    by (simp_all add: example_defs side_of_def upper_def upper_char_def)
  have l: "stop_level_of ?info = 1 / 2" "digits ?info = 2" "ask ?tick = 2001" "bid ?tick = 2000"
    by (simp_all add: stop_level_of_def example_defs)
  have rb: "?b \<in> set (snd (place_trade True venue_done ''XAUUSD'' 1 ''buy'' (Some (1 / 10))
                        (Some (1 / 5)) '''' 0))"
    using b by simp
  have rs: "?s \<in> set (snd (place_trade True venue_done ''XAUUSD'' 1 ''sell'' (Some (1 / 10))
                        (Some (- 1)) '''' 0))"
    using s by simp
  have pb: "(2001 :: real) = (if ORDER_TYPE_BUY = ORDER_TYPE_BUY then ask ?tick else bid ?tick)"
    using l by simp
  have ps: "(2000 :: real) = (if ORDER_TYPE_SELL = ORDER_TYPE_BUY then ask ?tick else bid ?tick)"
    using l by simp
  have rnd: "py_round_nd (2001 - 1 / 10) 2 \<noteq> 0" "py_round_nd (2001 + 1 / 5) 2 \<noteq> 0"
    "py_round_nd (2000 + 1 / 10) 2 \<noteq> 0"
    "py_round_nd (2001 - 1 / 2) 2 = 4001 / 2" "py_round_nd (2001 + 1 / 2) 2 = 4003 / 2"
    "py_round_nd (2000 + 1 / 2) 2 = 4001 / 2"
    by (simp_all add: py_round_nd_def py_round_def)
  note tb = stop_distance_floor [OF rb i(1) i(2) i(3) pb]
  note ts = stop_distance_floor [OF rs i(1) i(2) i(4) ps]
  from tb [THEN conjunct1, rule_format, of "1 / 10"] l rnd
  have 1: "req_sl ?b = Some (4001 / 2)" by simp
  from tb [THEN conjunct2, THEN conjunct1, rule_format, of "1 / 5"] l rnd
  have 2: "req_tp ?b = Some (4003 / 2)" by simp
  from ts [THEN conjunct1, rule_format, of "1 / 10"] l rnd
  have 3: "req_sl ?s = Some (4001 / 2)" by simp
  from ts [THEN conjunct2, THEN conjunct2, THEN conjunct2, THEN conjunct1, rule_format, of "- 1"]
  have 4: "req_tp ?s = None" by simp
  from 1 2 3 4 b s l show ?thesis by simp
qed

section \<open>Properties of the subscriptions and the workers\<close>

lemma tick_price_keeps:
  "active_subscriptions (snd (tick_price s symbol v tick)) = active_subscriptions s"
  "price_threads (snd (tick_price s symbol v tick)) = price_threads s"
  "connected_flag (snd (tick_price s symbol v tick)) = connected_flag s"
  "shutdown_event (snd (tick_price s symbol v tick)) = shutdown_event s"
  "spawned (snd (tick_price s symbol v tick)) = spawned s"
  by (simp_all add: tick_price_def Let_def)

lemma get_price_keeps:
  "active_subscriptions (snd (get_price s symbol v)) = active_subscriptions s"
  "price_threads (snd (get_price s symbol v)) = price_threads s"
  "connected_flag (snd (get_price s symbol v)) = connected_flag s"
  "shutdown_event (snd (get_price s symbol v)) = shutdown_event s"
  "spawned (snd (get_price s symbol v)) = spawned s"
  by (simp_all add: get_price_def case_prod_beta tick_price_keeps
      split: option.splits list.splits)

lemma get_price_failure_state:
  "isl (fst (get_price s symbol v)) \<Longrightarrow> snd (get_price s symbol v) = s"
  by (auto simp: get_price_def case_prod_beta split: option.splits list.splits if_splits)

lemma worker_iteration_keeps:
  assumes "worker_iteration symbol v emit_ok w s = (stop, w', s', out)"
  shows "active_subscriptions s' = active_subscriptions s \<and> price_threads s' = price_threads s"
proof -
  obtain r t where g: "get_price s symbol v = (r, t)" by (cases "get_price s symbol v")
  with get_price_keeps(1,2) [of s symbol v]
  have "active_subscriptions t = active_subscriptions s" "price_threads t = price_threads s"
    by simp_all
  with assms g show ?thesis
    by (auto simp: worker_iteration_def split: sum.splits if_splits)
qed

lemma registry_ok_init: "registry_ok init_connector"
  by (simp add: registry_ok_def init_connector_def)

lemma registry_ok_start:
  "registry_ok s \<Longrightarrow> registry_ok (start_price_stream symbol client_id s)"
  by (auto simp: registry_ok_def start_price_stream_def update_conv' subscribers_def
      split: option.splits if_splits)

lemma registry_ok_stop:
  "registry_ok s \<Longrightarrow> registry_ok (stop_price_stream symbol client s)"
  by (auto simp: registry_ok_def stop_price_stream_def update_conv' delete_conv' Let_def
      split: option.splits if_splits)

lemma worker_exit_eq:
  "worker_exit symbol s =
     s\<lparr>price_threads := AList.delete symbol (price_threads s),
       active_subscriptions := AList.delete symbol (active_subscriptions s)\<rparr>"
proof -
  have t: "map_of (price_threads s) symbol = None \<Longrightarrow>
             AList.delete symbol (price_threads s) = price_threads s"
    by (simp add: delete_id map_of_eq_None_iff)
  have a: "map_of (active_subscriptions s) symbol = None \<Longrightarrow>
             AList.delete symbol (active_subscriptions s) = active_subscriptions s"
    by (simp add: delete_id map_of_eq_None_iff)
  show ?thesis
    using t a
    by (cases "map_of (price_threads s) symbol"; cases "map_of (active_subscriptions s) symbol")
       (simp_all add: worker_exit_def worker_exit_thread_def worker_exit_subscription_def)
qed

lemma registry_ok_exit:
  "registry_ok s \<Longrightarrow> registry_ok (worker_exit symbol s)"
  by (auto simp: registry_ok_def worker_exit_eq delete_conv' split: if_splits)

lemma registry_ok_worker:
  "registry_ok s \<Longrightarrow> registry_ok (fst (snd (snd (price_worker symbol envs w s))))"
proof (induction envs arbitrary: w s)
  case Nil
  then show ?case by (simp add: registry_ok_exit)
next
  case (Cons env envs)
  obtain v emit_ok where env: "env = (v, emit_ok)" by (cases env)
  obtain stop w' s' out where it: "worker_iteration symbol v emit_ok w s = (stop, w', s', out)"
    by (cases "worker_iteration symbol v emit_ok w s") auto
  from worker_iteration_keeps [OF it] Cons.prems have ok: "registry_ok s'"
    by (simp add: registry_ok_def)
  obtain st w'' s'' out' where pw: "price_worker symbol envs w' s' = (st, w'', s'', out')"
    by (cases "price_worker symbol envs w' s'") auto
  from Cons.IH [OF ok, of w'] pw have ok': "registry_ok s''" by simp
  show ?case
    unfolding env
    using ok ok' Cons.prems
    by (simp add: it pw registry_ok_exit)
qed

lemma registry_ok_disconnect:
  "registry_ok (fst (snd (disconnect is_alive s)))"
  by (simp add: disconnect_def Let_def registry_ok_def)

lemma registry_ok_connect:
  "registry_ok s \<Longrightarrow> registry_ok (snd (connect t s))"
  by (auto simp: connect_def Let_def registry_ok_def split: option.splits)

lemma in_turn_registry_ok: "reachable_in_turn s \<Longrightarrow> registry_ok s"
proof (induction rule: reachable_in_turn.induct)
  case init
  show ?case by (rule registry_ok_init)
next
  case (connect s t)
  then show ?case by (simp add: registry_ok_connect)
next
  case (disconnect s is_alive)
  show ?case by (rule registry_ok_disconnect)
next
  case (get_price s symbol v)
  then show ?case using get_price_keeps(1,2) [of s symbol v] by (simp add: registry_ok_def)
next
  case (start_price_stream s symbol client_id)
  then show ?case by (simp add: registry_ok_start)
next
  case (stop_price_stream s symbol client)
  then show ?case by (simp add: registry_ok_stop)
next
  case (price_worker s symbol envs w)
  then show ?case by (simp add: registry_ok_worker)
qed

lemma subscribers_nonempty:
  "registry_ok s \<Longrightarrow> map_of (price_threads s) symbol \<noteq> None \<longleftrightarrow> subscribers s symbol \<noteq> []"
  by (auto simp: registry_ok_def subscribers_def split: option.splits)




lemma worker_failure_step:
  assumes "worker_guard symbol s" and "isl (fst (get_price s symbol v))"
  shows "price_worker symbol ((v, emit_ok) # rest) w s =
     (if max_errors \<le> error_count w + 1
      then (Ended, w\<lparr>error_count := error_count w + 1\<rparr>, worker_exit symbol s, [])
      else price_worker symbol rest (w\<lparr>error_count := error_count w + 1\<rparr>) s)"
proof -
  from assms(2) have st: "snd (get_price s symbol v) = s" by (rule get_price_failure_state)
  from assms(2) st have it: "worker_iteration symbol v emit_ok w s =
      (max_errors \<le> error_count w + 1, w\<lparr>error_count := error_count w + 1\<rparr>, s, [])"
    by (cases "get_price s symbol v") (auto simp: worker_iteration_def split: sum.splits)
  from assms(1) show ?thesis by (simp add: it)
qed


lemma fold_stop_threads:
  "registry_ok t \<Longrightarrow>
     price_threads (fold (\<lambda>symbol. stop_price_stream symbol None) ks t)
       = filter (\<lambda>p. fst p \<notin> set ks) (price_threads t)"
proof (induction ks arbitrary: t)
  case Nil
  then show ?case by simp
next
  case (Cons k ks)
  have d: "price_threads (stop_price_stream k None t) = AList.delete k (price_threads t)"
  proof (cases "map_of (active_subscriptions t) k")
    case None
    with Cons.prems have "map_of (price_threads t) k = None"
      unfolding registry_ok_def by blast
    then have "k \<notin> fst ` set (price_threads t)" by (simp add: map_of_eq_None_iff)
    then have "AList.delete k (price_threads t) = price_threads t"
      by (simp add: delete_id)
    with None show ?thesis by (simp add: stop_price_stream_def)
  next
    case (Some cs)
    then show ?thesis by (simp add: stop_price_stream_def)
  qed
  from Cons.prems have "registry_ok (stop_price_stream k None t)" by (rule registry_ok_stop)
  from Cons.IH [OF this] d show ?case
    by (simp add: AList.delete_eq) (rule filter_cong, auto)
qed

lemma stop_price_stream_flags:
  "connected_flag (stop_price_stream symbol c s) = connected_flag s"
  "shutdown_event (stop_price_stream symbol c s) = shutdown_event s"
  by (simp_all add: stop_price_stream_def Let_def split: option.splits)

lemma fold_stop_flags:
  "connected_flag (fold (\<lambda>symbol. stop_price_stream symbol None) ks t) = connected_flag t \<and>
   shutdown_event (fold (\<lambda>symbol. stop_price_stream symbol None) ks t) = shutdown_event t"
  by (induction ks arbitrary: t) (simp_all add: stop_price_stream_flags)

lemma disconnect_joins_nothing:
  assumes "reachable_in_turn s"
  shows "snd (snd (disconnect is_alive s))
           = SetShutdown # map StopPriceStream (map fst (price_threads s)) @ [Mt5Shutdown]"
proof -
  let ?s1 = "s\<lparr>connected_flag := False, shutdown_event := True\<rparr>"
  from assms have "registry_ok s" by (rule in_turn_registry_ok)
  then have ok: "registry_ok ?s1" by (simp add: registry_ok_def)
  have "price_threads (fold (\<lambda>symbol. stop_price_stream symbol None)
           (map fst (price_threads ?s1)) ?s1) = []"
    unfolding fold_stop_threads [OF ok] by (simp add: filter_empty_conv)
  then show ?thesis by (simp add: disconnect_def Let_def)
qed

text \<open>
  Claim C10. On a connected session with a selectable symbol for which the venue has
  no tick: if there is a last one-minute bar, \<^verbatim>\<open>get_price\<close> succeeds with bid and ask
  equal to the close of the bar, spread 0, high and low of the bar and the market
  status CLOSED, and leaves the state unchanged; if there is none it fails with the
  no-price-data error. That error is returned in no other case: whenever
  \<^verbatim>\<open>get_price\<close> returns it, the session is connected, the symbol selected, and both
  the tick and the bar are missing.
\<close>

theorem closed_market_fallback:
  "(connected_flag s \<and> symbol_select v symbol \<and> symbol_info_tick v 0 symbol = None \<longrightarrow>
      (\<forall>rate others. copy_rates_from_pos v symbol = Some (rate # others) \<longrightarrow>
         get_price s symbol v
           = (Inr \<lparr>pd_symbol = symbol, pd_bid = rate_close rate, pd_ask = rate_close rate,
                    pd_spread = 0, pd_time = rate_time rate, pd_high = rate_high rate,
                    pd_low = rate_low rate, pd_marketStatus = CLOSED\<rparr>, s)) \<and>
      (copy_rates_from_pos v symbol = None \<or> copy_rates_from_pos v symbol = Some [] \<longrightarrow>
         get_price s symbol v = (Inl (NoPriceData symbol), s)))
   \<and> (fst (get_price s symbol v) = Inl (NoPriceData symbol') \<longrightarrow>
        symbol' = symbol \<and> connected_flag s \<and> symbol_select v symbol \<and>
        symbol_info_tick v 0 symbol = None \<and>
        (copy_rates_from_pos v symbol = None \<or> copy_rates_from_pos v symbol = Some []))"
  by (auto simp: get_price_def bar_price_def case_prod_beta
      split: option.splits list.splits if_splits)

text \<open>
  Witness: a venue with a bar 2010 / 1990 / 2005 and no tick answers with 2005 on both
  sides and CLOSED; a venue with neither fails with the no-price-data error.
\<close>

theorem closed_market_fallback_witness:
  "connected_flag example_streaming \<and> symbol_select venue_bar ''XAUUSD''
   \<and> symbol_info_tick venue_bar 0 ''XAUUSD'' = None
   \<and> copy_rates_from_pos venue_bar ''XAUUSD''
       = Some [\<lparr>rate_time = 60, rate_high = 2010, rate_low = 1990, rate_close = 2005\<rparr>]
   \<and> get_price example_streaming ''XAUUSD'' venue_bar
       = (Inr \<lparr>pd_symbol = ''XAUUSD'', pd_bid = 2005, pd_ask = 2005, pd_spread = 0,
                pd_time = 60, pd_high = 2010, pd_low = 1990, pd_marketStatus = CLOSED\<rparr>,
          example_streaming)
   \<and> copy_rates_from_pos venue_silent ''XAUUSD'' = None
   \<and> get_price example_streaming ''XAUUSD'' venue_silent
       = (Inl (NoPriceData ''XAUUSD''), example_streaming)"
proof -
  have c: "connected_flag example_streaming"
    by (simp add: example_streaming_def start_price_stream_def init_connector_def)
  have b: "symbol_select venue_bar ''XAUUSD''" "symbol_info_tick venue_bar 0 ''XAUUSD'' = None"
    "copy_rates_from_pos venue_bar ''XAUUSD''
       = Some [\<lparr>rate_time = 60, rate_high = 2010, rate_low = 1990, rate_close = 2005\<rparr>]"
    by (simp_all add: venue_bar_def example_defs)
  have q: "symbol_select venue_silent ''XAUUSD''"
    "symbol_info_tick venue_silent 0 ''XAUUSD'' = None"
    "copy_rates_from_pos venue_silent ''XAUUSD'' = None"
    by (simp_all add: venue_silent_def example_defs)
  from closed_market_fallback [of example_streaming venue_bar "''XAUUSD''", THEN conjunct1]
    c b
  have 1: "get_price example_streaming ''XAUUSD'' venue_bar
       = (Inr \<lparr>pd_symbol = ''XAUUSD'', pd_bid = 2005, pd_ask = 2005, pd_spread = 0,
                pd_time = 60, pd_high = 2010, pd_low = 1990, pd_marketStatus = CLOSED\<rparr>,
          example_streaming)"
    by simp
  from closed_market_fallback [of example_streaming venue_silent "''XAUUSD''", THEN conjunct1]
    c q
  have 2: "get_price example_streaming ''XAUUSD'' venue_silent
       = (Inl (NoPriceData ''XAUUSD''), example_streaming)"
    by simp
  from c b q 1 2 show ?thesis by simp
qed

lemma worker_iteration_keeps_flags:
  assumes "worker_iteration symbol v emit_ok w s = (stop, w', s', out)"
  shows "connected_flag s' = connected_flag s \<and> shutdown_event s' = shutdown_event s \<and>
         spawned s' = spawned s"
proof -
  obtain r t where g: "get_price s symbol v = (r, t)" by (cases "get_price s symbol v")
  with get_price_keeps(3,4,5) [of s symbol v]
  have "connected_flag t = connected_flag s" "shutdown_event t = shutdown_event s"
    "spawned t = spawned s"
    by simp_all
  with assms g show ?thesis
    by (auto simp: worker_iteration_def split: sum.splits if_splits)
qed

lemma worker_running_keeps:
  assumes "price_worker symbol envs w s = (Running, w', s', out)"
  shows "active_subscriptions s' = active_subscriptions s \<and> price_threads s' = price_threads s \<and>
         connected_flag s' = connected_flag s \<and> shutdown_event s' = shutdown_event s \<and>
         spawned s' = spawned s"
  using assms
proof (induction envs arbitrary: w s out)
  case Nil
  then show ?case by (simp split: if_splits)
next
  case (Cons env envs)
  obtain v emit_ok where env: "env = (v, emit_ok)" by (cases env)
  obtain stop w1 s1 out1 where it: "worker_iteration symbol v emit_ok w s = (stop, w1, s1, out1)"
    by (cases "worker_iteration symbol v emit_ok w s") auto
  obtain st w2 s2 out2 where pw: "price_worker symbol envs w1 s1 = (st, w2, s2, out2)"
    by (cases "price_worker symbol envs w1 s1") auto
  from Cons.prems have r: "st = Running" "s2 = s'" "w2 = w'"
    by (auto simp: env it pw split: if_splits)
  from Cons.IH [of w1 s1 out2] pw r
  have "active_subscriptions s' = active_subscriptions s1 \<and> price_threads s' = price_threads s1 \<and>
         connected_flag s' = connected_flag s1 \<and> shutdown_event s' = shutdown_event s1 \<and>
         spawned s' = spawned s1"
    by simp
  with worker_iteration_keeps [OF it] worker_iteration_keeps_flags [OF it] show ?case by simp
qed

lemma worker_ends_without_thread:
  "map_of (price_threads s) symbol = None \<Longrightarrow> fst (price_worker symbol envs w s) = Ended"
  by (cases envs) (auto simp: worker_guard_def)

lemma two_subscribers:
  assumes c: "connected_flag s" "\<not> shutdown_event s"
    and n: "map_of (price_threads s) symbol = None"
    and d: "c1 \<noteq> c2" "c1 \<noteq> []" "c2 \<noteq> []"
    and s1: "s1 = start_price_stream symbol c1 s"
    and r1: "price_worker symbol envs1 fresh_worker s1 = (Running, w1, t1, o1)"
    and s2: "s2 = start_price_stream symbol c2 t1"
    and r2: "price_worker symbol envs2 w1 s2 = (Running, w2, t2, o2)"
    and s3: "s3 = stop_price_stream symbol (Some c1) t2"
    and r3: "price_worker symbol envs3 w2 s3 = (Running, w3, t3, o3)"
    and s4: "s4 = stop_price_stream symbol (Some c2) t3"
  shows "map_of (price_threads s1) symbol = Some (spawned s) \<and> spawned s1 = Suc (spawned s) \<and>
     subscribers s1 symbol = [c1] \<and> worker_guard symbol s1 \<and>
     price_threads s2 = price_threads s1 \<and> spawned s2 = spawned s1 \<and>
     subscribers s2 symbol = [c1, c2] \<and>
     start_price_stream symbol c2 s2 = s2 \<and> start_price_stream symbol c1 s2 = s2 \<and>
     price_threads s3 = price_threads s1 \<and> spawned s3 = spawned s1 \<and>
     subscribers s3 symbol = [c2] \<and> worker_guard symbol s3 \<and>
     map_of (price_threads s4) symbol = None \<and>
     map_of (active_subscriptions s4) symbol = None \<and> spawned s4 = spawned s1 \<and>
     (\<forall>envs w. fst (price_worker symbol envs w s4) = Ended)"
proof -
  have a1: "map_of (price_threads s1) symbol = Some (spawned s)" "spawned s1 = Suc (spawned s)"
    "map_of (active_subscriptions s1) symbol = Some [c1]"
    "connected_flag s1" "\<not> shutdown_event s1"
    using n c by (simp_all add: s1 start_price_stream_def update_conv')
  note k1 = worker_running_keeps [OF r1]
  have b1: "map_of (price_threads t1) symbol = Some (spawned s)"
    "map_of (active_subscriptions t1) symbol = Some [c1]"
    using a1 k1 by simp_all
  have a2: "price_threads s2 = price_threads t1" "spawned s2 = spawned t1"
    "map_of (active_subscriptions s2) symbol = Some [c1, c2]"
    "connected_flag s2 = connected_flag t1" "shutdown_event s2 = shutdown_event t1"
    using b1 d by (simp_all add: s2 start_price_stream_def update_conv' subscribers_def)
  have a2': "start_price_stream symbol c2 s2 = s2" "start_price_stream symbol c1 s2 = s2"
    using b1 a2 by (simp_all add: start_price_stream_def subscribers_def)
  note k2 = worker_running_keeps [OF r2]
  have b2: "map_of (active_subscriptions t2) symbol = Some [c1, c2]"
    using a2 k2 by simp
  have a3: "price_threads s3 = price_threads t2" "spawned s3 = spawned t2"
    "map_of (active_subscriptions s3) symbol = Some [c2]"
    "connected_flag s3 = connected_flag t2" "shutdown_event s3 = shutdown_event t2"
    using b2 d by (simp_all add: s3 stop_price_stream_def update_conv' Let_def)
  note k3 = worker_running_keeps [OF r3]
  have b3: "map_of (active_subscriptions t3) symbol = Some [c2]"
    using a3 k3 by simp
  have a4: "map_of (price_threads s4) symbol = None"
    "map_of (active_subscriptions s4) symbol = None" "spawned s4 = spawned t3"
    using b3 d by (simp_all add: s4 stop_price_stream_def delete_conv' Let_def)
  have g1: "worker_guard symbol s1" using a1 by (simp add: worker_guard_def)
  have g3: "worker_guard symbol s3"
    using a1 a2 a3 k1 k2 by (simp add: worker_guard_def)
  have e: "\<forall>envs w. fst (price_worker symbol envs w s4) = Ended"
    using a4(1) by (simp add: worker_ends_without_thread)
  from a1 a2 a2' a3 a4 k1 k2 k3 g1 g3 e show ?thesis by (simp add: subscribers_def)
qed

text \<open>
  Claim C7, as amended. In every state that the connector reaches when its operations
  run in turn, each to its end (\<open>reachable_in_turn\<close>), a symbol has an entry in
  \<^verbatim>\<open>price_threads\<close> if and only if its list of subscribers is not empty. From such a
  state, on a connected session that is not shut down, for a symbol without a worker
  and two distinct non-empty subscriber identities, and as long as the worker stays in
  its loop between the requests: the first subscription creates one thread, registers
  it, and the loop condition of its worker holds; the second creates none and only
  appends the identity; subscribing either identity again changes nothing;
  unsubscribing the first leaves the same thread registered and running with the second
  as only subscriber; unsubscribing the second removes the symbol from both
  dictionaries, no thread was created meanwhile, and the worker leaves its loop at its
  next check.
\<close>

theorem subscriber_reference_counting:
  assumes "reachable_in_turn s"
  shows "(\<forall>symbol. map_of (price_threads s) symbol \<noteq> None \<longleftrightarrow> subscribers s symbol \<noteq> [])
    \<and> (\<forall>symbol c1 c2 envs1 envs2 envs3 w1 w2 w3 t1 t2 t3 o1 o2 o3 s1 s2 s3 s4.
          connected_flag s \<and> \<not> shutdown_event s \<and>
          map_of (price_threads s) symbol = None \<and> c1 \<noteq> c2 \<and> c1 \<noteq> [] \<and> c2 \<noteq> [] \<and>
          s1 = start_price_stream symbol c1 s \<and>
          price_worker symbol envs1 fresh_worker s1 = (Running, w1, t1, o1) \<and>
          s2 = start_price_stream symbol c2 t1 \<and>
          price_worker symbol envs2 w1 s2 = (Running, w2, t2, o2) \<and>
          s3 = stop_price_stream symbol (Some c1) t2 \<and>
          price_worker symbol envs3 w2 s3 = (Running, w3, t3, o3) \<and>
          s4 = stop_price_stream symbol (Some c2) t3
          \<longrightarrow> map_of (price_threads s1) symbol = Some (spawned s) \<and>
              spawned s1 = Suc (spawned s) \<and> subscribers s1 symbol = [c1] \<and>
              worker_guard symbol s1 \<and>
              price_threads s2 = price_threads s1 \<and> spawned s2 = spawned s1 \<and>
              subscribers s2 symbol = [c1, c2] \<and>
              start_price_stream symbol c2 s2 = s2 \<and> start_price_stream symbol c1 s2 = s2 \<and>
              price_threads s3 = price_threads s1 \<and> spawned s3 = spawned s1 \<and>
              subscribers s3 symbol = [c2] \<and> worker_guard symbol s3 \<and>
              map_of (price_threads s4) symbol = None \<and>
              map_of (active_subscriptions s4) symbol = None \<and> spawned s4 = spawned s1 \<and>
              (\<forall>envs w. fst (price_worker symbol envs w s4) = Ended))"
proof -
  from assms have ok: "registry_ok s" by (rule in_turn_registry_ok)
  show ?thesis
  proof (rule conjI)
    from subscribers_nonempty [OF ok]
    show "\<forall>symbol. map_of (price_threads s) symbol \<noteq> None \<longleftrightarrow> subscribers s symbol \<noteq> []"
      by blast
  next
    show "\<forall>symbol c1 c2 envs1 envs2 envs3 w1 w2 w3 t1 t2 t3 o1 o2 o3 s1 s2 s3 s4.
          connected_flag s \<and> \<not> shutdown_event s \<and>
          map_of (price_threads s) symbol = None \<and> c1 \<noteq> c2 \<and> c1 \<noteq> [] \<and> c2 \<noteq> [] \<and>
          s1 = start_price_stream symbol c1 s \<and>
          price_worker symbol envs1 fresh_worker s1 = (Running, w1, t1, o1) \<and>
          s2 = start_price_stream symbol c2 t1 \<and>
          price_worker symbol envs2 w1 s2 = (Running, w2, t2, o2) \<and>
          s3 = stop_price_stream symbol (Some c1) t2 \<and>
          price_worker symbol envs3 w2 s3 = (Running, w3, t3, o3) \<and>
          s4 = stop_price_stream symbol (Some c2) t3
          \<longrightarrow> map_of (price_threads s1) symbol = Some (spawned s) \<and>
              spawned s1 = Suc (spawned s) \<and> subscribers s1 symbol = [c1] \<and>
              worker_guard symbol s1 \<and>
              price_threads s2 = price_threads s1 \<and> spawned s2 = spawned s1 \<and>
              subscribers s2 symbol = [c1, c2] \<and>
              start_price_stream symbol c2 s2 = s2 \<and> start_price_stream symbol c1 s2 = s2 \<and>
              price_threads s3 = price_threads s1 \<and> spawned s3 = spawned s1 \<and>
              subscribers s3 symbol = [c2] \<and> worker_guard symbol s3 \<and>
              map_of (price_threads s4) symbol = None \<and>
              map_of (active_subscriptions s4) symbol = None \<and> spawned s4 = spawned s1 \<and>
              (\<forall>envs w. fst (price_worker symbol envs w s4) = Ended)"
    proof (intro allI impI)
      fix symbol c1 c2 envs1 envs2 envs3 w1 w2 w3 t1 t2 t3 o1 o2 o3 s1 s2 s3 s4
      assume h: "connected_flag s \<and> \<not> shutdown_event s \<and>
          map_of (price_threads s) symbol = None \<and> c1 \<noteq> c2 \<and> c1 \<noteq> [] \<and> c2 \<noteq> [] \<and>
          s1 = start_price_stream symbol c1 s \<and>
          price_worker symbol envs1 fresh_worker s1 = (Running, w1, t1, o1) \<and>
          s2 = start_price_stream symbol c2 t1 \<and>
          price_worker symbol envs2 w1 s2 = (Running, w2, t2, o2) \<and>
          s3 = stop_price_stream symbol (Some c1) t2 \<and>
          price_worker symbol envs3 w2 s3 = (Running, w3, t3, o3) \<and>
          s4 = stop_price_stream symbol (Some c2) t3"
      then have hs: "connected_flag s" "\<not> shutdown_event s"
        "map_of (price_threads s) symbol = None" "c1 \<noteq> c2" "c1 \<noteq> []" "c2 \<noteq> []"
        "s1 = start_price_stream symbol c1 s"
        "price_worker symbol envs1 fresh_worker s1 = (Running, w1, t1, o1)"
        "s2 = start_price_stream symbol c2 t1"
        "price_worker symbol envs2 w1 s2 = (Running, w2, t2, o2)"
        "s3 = stop_price_stream symbol (Some c1) t2"
        "price_worker symbol envs3 w2 s3 = (Running, w3, t3, o3)"
        "s4 = stop_price_stream symbol (Some c2) t3"
        by blast+
      show "map_of (price_threads s1) symbol = Some (spawned s) \<and>
              spawned s1 = Suc (spawned s) \<and> subscribers s1 symbol = [c1] \<and>
              worker_guard symbol s1 \<and>
              price_threads s2 = price_threads s1 \<and> spawned s2 = spawned s1 \<and>
              subscribers s2 symbol = [c1, c2] \<and>
              start_price_stream symbol c2 s2 = s2 \<and> start_price_stream symbol c1 s2 = s2 \<and>
              price_threads s3 = price_threads s1 \<and> spawned s3 = spawned s1 \<and>
              subscribers s3 symbol = [c2] \<and> worker_guard symbol s3 \<and>
              map_of (price_threads s4) symbol = None \<and>
              map_of (active_subscriptions s4) symbol = None \<and> spawned s4 = spawned s1 \<and>
              (\<forall>envs w. fst (price_worker symbol envs w s4) = Ended)"
        by (rule two_subscribers [OF hs])
    qed
  qed
qed

lemma example_states:
  "connected_state =
     \<lparr>connected_flag = True, active_subscriptions = [], price_threads = [],
      symbol_data = Map.empty, shutdown_event = False, spawned = 0\<rparr>"
  "start_price_stream ''XAUUSD'' ''a'' connected_state = example_streaming"
  "example_streaming =
     \<lparr>connected_flag = True, active_subscriptions = [(''XAUUSD'', [''a''])],
      price_threads = [(''XAUUSD'', 0)], symbol_data = Map.empty, shutdown_event = False,
      spawned = 1\<rparr>"
  "two_subscribed =
     \<lparr>connected_flag = True, active_subscriptions = [(''XAUUSD'', [''a'', ''b''])],
      price_threads = [(''XAUUSD'', 0)], symbol_data = Map.empty, shutdown_event = False,
      spawned = 1\<rparr>"
  "one_left =
     \<lparr>connected_flag = True, active_subscriptions = [(''XAUUSD'', [''b''])],
      price_threads = [(''XAUUSD'', 0)], symbol_data = Map.empty, shutdown_event = False,
      spawned = 1\<rparr>"
  "none_left =
     \<lparr>connected_flag = True, active_subscriptions = [], price_threads = [],
      symbol_data = Map.empty, shutdown_event = False, spawned = 1\<rparr>"
  by (simp_all add: connected_state_def connect_def example_terminal_def init_connector_def
      example_streaming_def two_subscribed_def one_left_def none_left_def
      start_price_stream_def stop_price_stream_def subscribers_def Let_def)

lemma venue_down_fails:
  "connected_flag s \<Longrightarrow> isl (fst (get_price s symbol venue_down))"
  by (simp add: get_price_def venue_down_def)

text \<open>
  Witness: after \<^verbatim>\<open>connect\<close>, the clients a and b subscribe to XAUUSD while the worker
  (thread 0) runs, each of its fetches failing once: one thread exists. After a
  unsubscribes, thread 0 is still registered and its loop condition holds; after b
  unsubscribes both dictionaries have lost the symbol and the worker ends at its next
  check.
\<close>

theorem subscriber_reference_counting_witness:
  "reachable_in_turn connected_state
   \<and> connected_flag connected_state \<and> shutdown_event connected_state = False
   \<and> map_of (price_threads connected_state) ''XAUUSD'' = None
   \<and> subscribers connected_state ''XAUUSD'' = []
   \<and> price_worker ''XAUUSD'' [(venue_down, True)] fresh_worker example_streaming
       = (Running, \<lparr>last_price = None, error_count = 1\<rparr>, example_streaming, [])
   \<and> price_worker ''XAUUSD'' [(venue_down, True)] \<lparr>last_price = None, error_count = 1\<rparr>
        two_subscribed
       = (Running, \<lparr>last_price = None, error_count = 2\<rparr>, two_subscribed, [])
   \<and> price_worker ''XAUUSD'' [] \<lparr>last_price = None, error_count = 2\<rparr> one_left
       = (Running, \<lparr>last_price = None, error_count = 2\<rparr>, one_left, [])
   \<and> price_threads example_streaming = [(''XAUUSD'', 0)] \<and> spawned example_streaming = 1
   \<and> price_threads two_subscribed = [(''XAUUSD'', 0)] \<and> spawned two_subscribed = 1
   \<and> subscribers two_subscribed ''XAUUSD'' = [''a'', ''b'']
   \<and> price_threads one_left = [(''XAUUSD'', 0)] \<and> subscribers one_left ''XAUUSD'' = [''b'']
   \<and> worker_guard ''XAUUSD'' one_left
   \<and> map_of (price_threads none_left) ''XAUUSD'' = None
   \<and> map_of (active_subscriptions none_left) ''XAUUSD'' = None
   \<and> fst (price_worker ''XAUUSD'' [(venue_done, True)] \<lparr>last_price = None, error_count = 2\<rparr>
        none_left) = Ended"
proof -
  let ?w1 = "\<lparr>last_price = None, error_count = 1\<rparr>"
  let ?w2 = "\<lparr>last_price = None, error_count = 2\<rparr>"
  have r: "reachable_in_turn connected_state"
    unfolding connected_state_def
    by (rule reachable_in_turn.connect [OF reachable_in_turn.init])
  have c: "connected_flag connected_state" "\<not> shutdown_event connected_state"
    "map_of (price_threads connected_state) ''XAUUSD'' = None"
    by (simp_all add: example_states(1))
  have d: "''a'' \<noteq> ''b''" "''a'' \<noteq> []" "''b'' \<noteq> []" by simp_all
  have g: "worker_guard ''XAUUSD'' example_streaming" "worker_guard ''XAUUSD'' two_subscribed"
    "worker_guard ''XAUUSD'' one_left"
    by (simp_all add: worker_guard_def example_states)
  have f: "isl (fst (get_price example_streaming ''XAUUSD'' venue_down))"
    "isl (fst (get_price two_subscribed ''XAUUSD'' venue_down))"
    by (simp_all add: venue_down_fails example_states)
  have r1: "price_worker ''XAUUSD'' [(venue_down, True)] fresh_worker
              (start_price_stream ''XAUUSD'' ''a'' connected_state)
            = (Running, ?w1, example_streaming, [])"
    using g(1)
    by (simp add: example_states(2) worker_failure_step [OF g(1) f(1)] fresh_worker_def
        max_errors_def del: price_worker.simps(2))
  have s2: "two_subscribed = start_price_stream ''XAUUSD'' ''b'' example_streaming"
    by (simp add: two_subscribed_def example_states(2))
  have r2: "price_worker ''XAUUSD'' [(venue_down, True)] ?w1 two_subscribed
            = (Running, ?w2, two_subscribed, [])"
    using g(2)
    by (simp add: worker_failure_step [OF g(2) f(2)] max_errors_def
        del: price_worker.simps(2))
  have r3: "price_worker ''XAUUSD'' [] ?w2 one_left = (Running, ?w2, one_left, [])"
    using g(3) by simp
  note t = subscriber_reference_counting [OF r]
  from t [THEN conjunct1, rule_format, of "''XAUUSD''"] c
  have 0: "subscribers connected_state ''XAUUSD'' = []" by simp
  have h: "connected_flag connected_state \<and> \<not> shutdown_event connected_state \<and>
      map_of (price_threads connected_state) ''XAUUSD'' = None \<and> ''a'' \<noteq> ''b'' \<and>
      ''a'' \<noteq> [] \<and> ''b'' \<noteq> [] \<and>
      start_price_stream ''XAUUSD'' ''a'' connected_state
        = start_price_stream ''XAUUSD'' ''a'' connected_state \<and>
      price_worker ''XAUUSD'' [(venue_down, True)] fresh_worker
        (start_price_stream ''XAUUSD'' ''a'' connected_state)
        = (Running, ?w1, example_streaming, []) \<and>
      two_subscribed = start_price_stream ''XAUUSD'' ''b'' example_streaming \<and>
      price_worker ''XAUUSD'' [(venue_down, True)] ?w1 two_subscribed
        = (Running, ?w2, two_subscribed, []) \<and>
      one_left = stop_price_stream ''XAUUSD'' (Some ''a'') two_subscribed \<and>
      price_worker ''XAUUSD'' [] ?w2 one_left = (Running, ?w2, one_left, []) \<and>
      none_left = stop_price_stream ''XAUUSD'' (Some ''b'') one_left"
    using c d r1 s2 r2 r3 by (simp add: one_left_def none_left_def)
  from t [THEN conjunct2, rule_format, OF h]
  have 1: "subscribers two_subscribed ''XAUUSD'' = [''a'', ''b'']"
    "subscribers one_left ''XAUUSD'' = [''b'']"
    "map_of (price_threads none_left) ''XAUUSD'' = None"
    "map_of (active_subscriptions none_left) ''XAUUSD'' = None"
    "fst (price_worker ''XAUUSD'' [(venue_done, True)] ?w2 none_left) = Ended"
    by blast+
  have e: "price_threads example_streaming = [(''XAUUSD'', 0)]" "spawned example_streaming = 1"
    "price_threads two_subscribed = [(''XAUUSD'', 0)]" "spawned two_subscribed = 1"
    "price_threads one_left = [(''XAUUSD'', 0)]"
    by (simp_all add: example_states)
  from r1 have r1': "price_worker ''XAUUSD'' [(venue_down, True)] fresh_worker example_streaming
       = (Running, ?w1, example_streaming, [])"
    by (simp only: example_states(2))
  from r c 0 r1' r2 r3 e 1 g(3) show ?thesis by blast
qed

text \<open>
  The invariant of claim C7 does not hold at every point of the program. Thread 0, the
  worker of XAUUSD for the client a, leaves its loop after five failed fetches; its
  closing lines are the two statements of \<open>worker_exit\<close>. Between them the client b
  subscribes. In the resulting state \<open>race_state\<close> the new thread 1 is registered for
  XAUUSD and its loop condition holds, but XAUUSD has no subscriber set, and no
  \<^verbatim>\<open>stop_price_stream\<close> removes the worker.
\<close>

theorem subscriber_reference_counting_counterexample:
  "price_threads example_streaming = [(''XAUUSD'', 0)]
   \<and> subscribers example_streaming ''XAUUSD'' = [''a'']
   \<and> fst (price_worker ''XAUUSD''
        [(venue_down, True), (venue_down, True), (venue_down, True), (venue_down, True),
         (venue_down, True)] fresh_worker example_streaming) = Ended
   \<and> fst (snd (snd (price_worker ''XAUUSD''
        [(venue_down, True), (venue_down, True), (venue_down, True), (venue_down, True),
         (venue_down, True)] fresh_worker example_streaming)))
       = worker_exit_subscription ''XAUUSD'' (worker_exit_thread ''XAUUSD'' example_streaming)
   \<and> price_threads race_state = [(''XAUUSD'', 1)]
   \<and> active_subscriptions race_state = []
   \<and> subscribers race_state ''XAUUSD'' = []
   \<and> worker_guard ''XAUUSD'' race_state
   \<and> stop_price_stream ''XAUUSD'' (Some ''b'') race_state = race_state
   \<and> stop_price_stream ''XAUUSD'' None race_state = race_state"
proof -
  let ?envs = "[(venue_down, True), (venue_down, True), (venue_down, True), (venue_down, True),
         (venue_down, True)]"
  have g: "worker_guard ''XAUUSD'' example_streaming"
    by (simp add: worker_guard_def example_states)
  have f: "isl (fst (get_price example_streaming ''XAUUSD'' venue_down))"
    by (simp add: venue_down_fails example_states)
  have five: "price_worker ''XAUUSD'' ?envs fresh_worker example_streaming
     = (Ended, \<lparr>last_price = None, error_count = 5\<rparr>,
        worker_exit ''XAUUSD'' example_streaming, [])"
    by (simp add: worker_failure_step [OF g f] fresh_worker_def max_errors_def
        del: price_worker.simps)
  have 1: "fst (price_worker ''XAUUSD'' ?envs fresh_worker example_streaming) = Ended"
    "fst (snd (snd (price_worker ''XAUUSD'' ?envs fresh_worker example_streaming)))
       = worker_exit_subscription ''XAUUSD'' (worker_exit_thread ''XAUUSD'' example_streaming)"
    unfolding five by (simp_all add: worker_exit_def)
  have rs: "race_state =
     \<lparr>connected_flag = True, active_subscriptions = [],
      price_threads = [(''XAUUSD'', 1)], symbol_data = Map.empty, shutdown_event = False,
      spawned = 2\<rparr>"
    by (simp add: race_state_def example_states(3) worker_exit_thread_def
        worker_exit_subscription_def start_price_stream_def)
  have 2: "price_threads race_state = [(''XAUUSD'', 1)]" "active_subscriptions race_state = []"
    "subscribers race_state ''XAUUSD'' = []" "worker_guard ''XAUUSD'' race_state"
    by (simp_all add: rs subscribers_def worker_guard_def)
  have 3: "stop_price_stream ''XAUUSD'' (Some ''b'') race_state = race_state"
    "stop_price_stream ''XAUUSD'' None race_state = race_state"
    by (simp_all add: stop_price_stream_def 2)
  have 0: "price_threads example_streaming = [(''XAUUSD'', 0)]"
    "subscribers example_streaming ''XAUUSD'' = [''a'']"
    by (simp_all add: example_states(3) subscribers_def)
  from 0 1 2 3 show ?thesis by blast
qed

text \<open>
  \<^verbatim>\<open>disconnect\<close> returns success from every state and leaves the connected flag
  false, the shutdown event set and both dictionaries empty; a second call returns
  success again, keeps the state and only sets the event and shuts the venue down.
\<close>

lemma disconnect_result:
  "(case disconnect is_alive s of
      (r, s', effects) \<Rightarrow>
        r = Inr () \<and> \<not> connected_flag s' \<and> shutdown_event s' \<and>
        active_subscriptions s' = [] \<and> price_threads s' = [] \<and>
        disconnect is_alive' s' = (Inr (), s', [SetShutdown, Mt5Shutdown]))"
proof -
  obtain r s' effects where d: "disconnect is_alive s = (r, s', effects)"
    by (cases "disconnect is_alive s") auto
  then have 1: "r = Inr ()" "\<not> connected_flag s'" "shutdown_event s'"
    "active_subscriptions s' = []" "price_threads s' = []"
    by (auto simp: disconnect_def Let_def fold_stop_flags)
  from 1 have 3: "disconnect is_alive' s' = (Inr (), s', [SetShutdown, Mt5Shutdown])"
    by (simp add: disconnect_def Let_def)
  from 1 3 show ?thesis by (simp add: d)
qed

text \<open>
  Claim C9 on a connected session with one live worker, thread 0 for XAUUSD. Both calls
  of \<^verbatim>\<open>disconnect\<close> return success and leave the flag false and the dictionaries
  empty. But the calls of the first are: setting the shutdown event,
  \<^verbatim>\<open>stop_price_stream\<close> for XAUUSD, and \<^verbatim>\<open>mt5.shutdown\<close>. Thread 0 is alive and is
  never joined: line 70 has removed it from \<^verbatim>\<open>price_threads\<close> before the loop of lines
  72-74 looks for threads to join, so the session is released while the worker may
  still run. By \<open>disconnect_joins_nothing\<close> this is so in every state reached by
  operations that run in turn.
\<close>

theorem disconnect_joins_no_worker:
  "price_threads example_streaming = [(''XAUUSD'', 0)]
   \<and> all_alive 0
   \<and> fst (disconnect all_alive example_streaming) = Inr ()
   \<and> snd (snd (disconnect all_alive example_streaming))
       = [SetShutdown, StopPriceStream ''XAUUSD'', Mt5Shutdown]
   \<and> price_threads (fst (snd (disconnect all_alive example_streaming))) = []
   \<and> active_subscriptions (fst (snd (disconnect all_alive example_streaming))) = []
   \<and> connected_flag (fst (snd (disconnect all_alive example_streaming))) = False
   \<and> shutdown_event (fst (snd (disconnect all_alive example_streaming))) = True
   \<and> fst (disconnect all_alive (fst (snd (disconnect all_alive example_streaming)))) = Inr ()
   \<and> snd (snd (disconnect all_alive (fst (snd (disconnect all_alive example_streaming)))))
       = [SetShutdown, Mt5Shutdown]"
proof -
  have d: "disconnect all_alive example_streaming =
     (Inr (),
      \<lparr>connected_flag = False, active_subscriptions = [], price_threads = [],
       symbol_data = Map.empty, shutdown_event = True, spawned = 1\<rparr>,
      [SetShutdown, StopPriceStream ''XAUUSD'', Mt5Shutdown])"
    by (simp add: disconnect_def example_states(3) stop_price_stream_def Let_def)
  have a: "all_alive 0" by (simp add: all_alive_def)
  have e: "price_threads example_streaming = [(''XAUUSD'', 0)]"
    by (simp add: example_states(3))
  show ?thesis
    unfolding d using a e by (simp add: disconnect_def Let_def)
qed

end
